theory Spec2Isabelle
  imports Main "HOL-Library.Code_Target_Nat"
begin

section \<open>Python values used by trychange.py\<close>

text \<open>
  The option values and the payload values of the script are Python objects: \<open>None\<close>,
  byte strings and integers.  \<open>str_of\<close> is Python's \<open>str()\<close> on them, as used by
  the \<open>%s\<close> conversion.
\<close>

datatype pyval = PyNone | PyStr string | PyInt int

definition digit_char :: "nat \<Rightarrow> char" where
  "digit_char d = char_of (48 + d)"

fun str_nat :: "nat \<Rightarrow> string" where
  "str_nat n = (if n < 10 then [digit_char n] else str_nat (n div 10) @ [digit_char (n mod 10)])"

declare str_nat.simps [simp del]

definition str_int :: "int \<Rightarrow> string" where
  "str_int i = (if i < 0 then CHR ''-'' # str_nat (nat (- i)) else str_nat (nat i))"

fun str_of :: "pyval \<Rightarrow> string" where
  "str_of PyNone = ''None''"
| "str_of (PyStr s) = s"
| "str_of (PyInt i) = str_int i"

text \<open>Python truthiness of the option values (\<open>if options.x:\<close>).\<close>

fun truthy_str :: "string option \<Rightarrow> bool" where
  "truthy_str None = False"
| "truthy_str (Some s) = (s \<noteq> [])"

fun truthy_list :: "'a list option \<Rightarrow> bool" where
  "truthy_list None = False"
| "truthy_list (Some xs) = (xs \<noteq> [])"

fun truthy_int :: "int option \<Rightarrow> bool" where
  "truthy_int None = False"
| "truthy_int (Some i) = (i \<noteq> 0)"

fun truthy_bool :: "bool option \<Rightarrow> bool" where
  "truthy_bool None = False"
| "truthy_bool (Some b) = b"

fun truthy :: "pyval \<Rightarrow> bool" where
  "truthy PyNone = False"
| "truthy (PyStr s) = (s \<noteq> [])"
| "truthy (PyInt i) = (i \<noteq> 0)"

fun str_val :: "string option \<Rightarrow> pyval" where
  "str_val None = PyNone"
| "str_val (Some s) = PyStr s"

fun int_val :: "int option \<Rightarrow> pyval" where
  "int_val None = PyNone"
| "int_val (Some i) = PyInt i"

text \<open>\<open>sep.join(xs)\<close>, \<open>s.startswith(p)\<close> and \<open>s.replace(a, b)\<close> for one-character \<open>a\<close>, \<open>b\<close>.\<close>

fun join :: "string \<Rightarrow> string list \<Rightarrow> string" where
  "join sep [] = []"
| "join sep [x] = x"
| "join sep (x # y # ys) = x @ sep @ join sep (y # ys)"

definition startswith :: "string \<Rightarrow> string \<Rightarrow> bool" where
  "startswith s p = (take (length p) s = p)"

definition replace_char :: "char \<Rightarrow> char \<Rightarrow> string \<Rightarrow> string" where
  "replace_char a b s = map (\<lambda>c. if c = a then b else c) s"

text \<open>
  A Python dictionary, kept as an association list with distinct keys: \<open>d[k] = v\<close>
  replaces the binding of an existing key and appends a new key otherwise.
\<close>

type_synonym pydict = "(string \<times> pyval) list"

fun dict_set :: "pydict \<Rightarrow> string \<Rightarrow> pyval \<Rightarrow> pydict" where
  "dict_set [] k v = [(k, v)]"
| "dict_set ((k', v') # d) k v = (if k' = k then (k, v) # d else (k', v') # dict_set d k v)"

definition dict_get :: "pydict \<Rightarrow> string \<Rightarrow> pyval" where
  "dict_get d k = (case map_of d k of None \<Rightarrow> PyNone | Some v \<Rightarrow> v)"

section \<open>Errors\<close>

text \<open>
  The exceptions the script raises, catches or lets through.  \<open>CheckCallError\<close> is the
  error of \<open>gclient_utils.CheckCall\<close> with its command, return code and captured
  output.
\<close>

datatype exn =
    InvalidScript string
  | NoTryServerAccess string
  | CheckCallError "string list" int string
  | IOError "pyval list" string
  | SystemExit int string
  | IndexError
  | AttributeError
  | TypeError
  | ValueError
  | InvalidURL string
  | OSError string
  | OtherError string

definition HELP_STRING :: string where
  "HELP_STRING = ''Sorry, Tryserver is not available.''"

definition NL :: string where
  "NL = [CHR 0x0A]"

text \<open>\<open>__str__\<close> of the two classified errors: the message, a newline and the hint.\<close>

fun classified_str :: "exn \<Rightarrow> string option" where
  "classified_str (InvalidScript m) = Some (m @ NL @ HELP_STRING)"
| "classified_str (NoTryServerAccess m) = Some (m @ NL @ HELP_STRING)"
| "classified_str _ = None"

section \<open>Options\<close>

datatype transport = ViaHTTP | ViaSVN

datatype scm_kind = SVN | GIT

record scm_obj =
  kind :: scm_kind
  checkout_root :: string

record options =
  email :: "string option"
  user :: string
  name :: "string option"
  bot :: "string list option"
  revision :: "string option"
  clobber :: "bool option"
  tests :: "string list option"
  root :: "string option"
  patchlevel :: "int option"
  issue :: "int option"
  patchset :: "int option"
  target :: "string option"
  project :: "string option"
  files :: "string list option"
  diff :: "string option"
  url :: "string option"
  host :: "string option"
  port :: "string option"
  proxy :: "string option"
  svn_repo :: "string option"
  send_patch :: "transport option"
  scm :: "scm_obj option"

section \<open>EscapeDot and \_ParseSendChangeOptions\<close>

definition EscapeDot :: "string \<Rightarrow> string" where
  "EscapeDot s = replace_char (CHR ''.'') (CHR ''-'') s"

text \<open>
  \<open>set_if c values k v\<close> is the statement \<open>if c: values[k] = v\<close>;
  \<open>join_val\<close> is \<open>','.join(xs)\<close> on a list-valued option.
\<close>

definition set_if :: "bool \<Rightarrow> pydict \<Rightarrow> string \<Rightarrow> pyval \<Rightarrow> pydict" where
  "set_if c values k v = (if c then dict_set values k v else values)"

fun join_val :: "string list option \<Rightarrow> pyval" where
  "join_val None = PyNone"
| "join_val (Some xs) = PyStr (join '','' xs)"

definition ParseSendChangeOptions :: "options \<Rightarrow> pydict" where
  "ParseSendChangeOptions opts =
    (let values = [];
         values = set_if (truthy_str (email opts)) values ''email'' (str_val (email opts));
         values = dict_set values ''user'' (PyStr (user opts));
         values = dict_set values ''name'' (str_val (name opts));
         values = set_if (truthy_list (bot opts)) values ''bot'' (join_val (bot opts));
         values = set_if (truthy_str (revision opts)) values ''revision'' (str_val (revision opts));
         values = set_if (truthy_bool (clobber opts)) values ''clobber'' (PyStr ''true'');
         values = set_if (truthy_list (tests opts)) values ''tests'' (join_val (tests opts));
         values = set_if (truthy_str (root opts)) values ''root'' (str_val (root opts));
         values = set_if (truthy_int (patchlevel opts)) values ''patchlevel'' (int_val (patchlevel opts));
         values = set_if (truthy_int (issue opts)) values ''issue'' (int_val (issue opts));
         values = set_if (truthy_int (patchset opts)) values ''patchset'' (int_val (patchset opts));
         values = set_if (truthy_str (target opts)) values ''target'' (str_val (target opts));
         values = set_if (truthy_str (project opts)) values ''project'' (str_val (project opts))
     in values)"

section \<open>GIT.\_GenerateDiff: the rewrite of added-file headers\<close>

text \<open>
  The loop \<open>for i in range(len(diff))\<close> over the list of lines, updated in place.
  \<open>diff[i+1]\<close> raises \<open>IndexError\<close> when \<open>i\<close> is the last index.
\<close>

function GenerateDiff_loop :: "nat \<Rightarrow> string list \<Rightarrow> exn + string list" where
  "GenerateDiff_loop i ls =
    (if i < length ls then
       (if startswith (ls ! i) ''--- /dev/null'' then
          (if i + 1 < length ls
           then GenerateDiff_loop (i + 1) (ls[i := ''--- '' @ drop 4 (ls ! (i + 1))])
           else Inl IndexError)
        else GenerateDiff_loop (i + 1) ls)
     else Inr ls)"
  by pat_completeness auto
termination
  by (relation "measure (\<lambda>(i, ls). length ls - i)") auto

declare GenerateDiff_loop.simps [simp del]

section \<open>The world outside the script\<close>

text \<open>
  The local filesystem is a map from paths to nodes.  Every effect the claims speak of is
  appended to a trace: a subprocess run through \<open>gclient_utils.CheckCall\<close>, a write to
  a local file, an HTTP POST through \<open>urllib.urlopen\<close>, a line printed.
\<close>

datatype node = Dir | File string

datatype event =
    Run "string list"
  | Write string string
  | Post string pydict "(string \<times> string) list option"
  | Print string
  | PrintHelp

record world =
  fs :: "string \<Rightarrow> node option"
  cwd :: string
  trace :: "event list"

text \<open>
  What one call of \<open>urllib.urlopen(url, data, proxies=proxies)\<close> followed by
  \<open>connection.read()\<close> can do:
  \<^item> \<open>UrlIOError\<close>: \<open>urlopen\<close> raises \<open>IOError\<close>, given with \<open>e.args\<close> and the
    rendering \<open>str(e.args)\<close> (connection refused, bad status line);
  \<^item> \<open>UrlRaises e sent\<close>: \<open>urlopen\<close> raises an exception that is not an
    \<open>IOError\<close>, such as \<open>httplib.InvalidURL\<close> for a port that is not a number;
    \<open>sent\<close> tells whether a request went out before it;
  \<^item> \<open>UrlConnection t r\<close>: \<open>urlopen\<close> returns a connection object with truth value
    \<open>t\<close>, and \<open>read()\<close> on it returns the body or raises, as \<open>r\<close> says.
\<close>

datatype urlopen_outcome =
    UrlIOError "pyval list" string
  | UrlRaises exn bool
  | UrlConnection bool "exn + string"

record datetime =
  year :: nat
  month :: nat
  day :: nat
  hour :: nat
  minute :: nat
  second :: nat
  microsecond :: nat

text \<open>
  The collaborators of the script that are not part of it: library calls, other modules
  of the tool set, the operating system.  Each is a parameter; a call that can fail
  returns a sum.
  \<^item> \<open>CheckCall_outcome\<close>: \<open>gclient_utils.CheckCall\<close>, the captured output or the
    return code and output of the failure; \<open>CheckCall_writes\<close>: the local paths the
    subprocess writes;
  \<^item> \<open>dict_items\<close>: the order in which \<open>iteritems()\<close> enumerates a dictionary;
  \<^item> \<open>py_int\<close>: \<open>int()\<close> on a string, \<open>None\<close> for \<open>ValueError\<close>;
  \<^item> \<open>getaddrinfo\<close>: \<open>None\<close> for \<open>socket.gaierror\<close>;
  \<^item> \<open>mkdtemp\<close>, \<open>NamedTemporaryFile\<close>: the name of the temporary created, or the
    exception of \<open>tempfile\<close>;
  \<^item> \<open>rmtree_failures\<close>: the paths that \<open>shutil.rmtree\<close> fails to remove.
\<close>

record env =
  CheckCall_outcome :: "string list \<Rightarrow> (int \<times> string) + string"
  CheckCall_writes :: "string list \<Rightarrow> (string \<times> node) list"
  mkdtemp :: "exn + string"
  NamedTemporaryFile :: "exn + string"
  rmtree_failures :: "string list"
  now :: datetime
  open_wb :: "string \<Rightarrow> bool"
  urlopen :: "string \<Rightarrow> pydict \<Rightarrow> (string \<times> string) list option \<Rightarrow> urlopen_outcome"
  dict_items :: "pydict \<Rightarrow> pydict"
  py_int :: "string \<Rightarrow> int option"
  GetCodeReviewSetting :: "string \<Rightarrow> string option"
  getaddrinfo :: "string \<Rightarrow> string list option"
  getuser :: string
  environ :: "string \<Rightarrow> string option"
  abspath :: "string \<Rightarrow> string \<Rightarrow> string"
  SVN_GetCheckoutRoot :: "string \<Rightarrow> exn + string"
  SVN_CaptureStatus :: "exn + (string \<times> string) list"
  SVN_DiffItem :: "string \<Rightarrow> exn + string option"
  SVN_GetEmail :: "string \<Rightarrow> exn + string option"
  GIT_GetEmail :: "string \<Rightarrow> exn + string option"
  url_read :: "string \<Rightarrow> exn + string"
  FileRead :: "string \<Rightarrow> exn + string"
  GetCachedFile :: "string \<Rightarrow> exn + string option"
  DoGetTrySlaves :: "string list option \<Rightarrow> string \<Rightarrow> string option \<Rightarrow> exn + string list"

subsection \<open>Sequencing with exceptions\<close>

definition returnM :: "'a \<Rightarrow> 's \<Rightarrow> (exn + 'a) \<times> 's" where
  "returnM x s = (Inr x, s)"

definition raiseM :: "exn \<Rightarrow> 's \<Rightarrow> (exn + 'a) \<times> 's" where
  "raiseM e s = (Inl e, s)"

definition bindM ::
  "('s \<Rightarrow> (exn + 'a) \<times> 's) \<Rightarrow> ('a \<Rightarrow> 's \<Rightarrow> (exn + 'b) \<times> 's) \<Rightarrow> 's \<Rightarrow> (exn + 'b) \<times> 's" where
  "bindM m f s = (case m s of (Inl e, s') \<Rightarrow> (Inl e, s') | (Inr x, s') \<Rightarrow> f x s')"

text \<open>\<open>try: m except: h\<close> and \<open>try: m finally: fin\<close>.\<close>

definition catchM ::
  "('s \<Rightarrow> (exn + 'a) \<times> 's) \<Rightarrow> (exn \<Rightarrow> 's \<Rightarrow> (exn + 'a) \<times> 's) \<Rightarrow> 's \<Rightarrow> (exn + 'a) \<times> 's" where
  "catchM m h s = (case m s of (Inl e, s') \<Rightarrow> h e s' | (Inr x, s') \<Rightarrow> (Inr x, s'))"

definition finallyM ::
  "('s \<Rightarrow> (exn + 'a) \<times> 's) \<Rightarrow> ('s \<Rightarrow> 's) \<Rightarrow> 's \<Rightarrow> (exn + 'a) \<times> 's" where
  "finallyM m fin s = (case m s of (r, s') \<Rightarrow> (r, fin s'))"

subsection \<open>Library functions on strings and paths\<close>

definition lower_char :: "char \<Rightarrow> char" where
  "lower_char c = (let n = (of_char c :: nat) in if 65 \<le> n \<and> n \<le> 90 then char_of (n + 32) else c)"

definition lower :: "string \<Rightarrow> string" where
  "lower s = map lower_char s"

definition is_space :: "char \<Rightarrow> bool" where
  "is_space c = (c \<in> set [CHR '' '', CHR 0x09, CHR 0x0A, CHR 0x0B, CHR 0x0C, CHR 0x0D])"

definition strip :: "string \<Rightarrow> string" where
  "strip s = rev (dropWhile is_space (rev (dropWhile is_space s)))"

text \<open>\<open>str.splitlines(True)\<close>: lines end at \<open>\n\<close>, \<open>\r\n\<close> or \<open>\r\<close>, terminators kept.\<close>

fun splitlines_from :: "string \<Rightarrow> string \<Rightarrow> string list" where
  "splitlines_from cur [] = (if cur = [] then [] else [cur])"
| "splitlines_from cur [c] = [cur @ [c]]"
| "splitlines_from cur (c # d # cs) =
     (if c = CHR 0x0A then (cur @ [c]) # splitlines_from [] (d # cs)
      else if c = CHR 0x0D \<and> d = CHR 0x0A then (cur @ [c, d]) # splitlines_from [] cs
      else if c = CHR 0x0D then (cur @ [c]) # splitlines_from [] (d # cs)
      else splitlines_from (cur @ [c]) (d # cs))"

definition splitlines :: "string \<Rightarrow> string list" where
  "splitlines s = splitlines_from [] s"

text \<open>\<open>os.path.join\<close> of two components (POSIX): an absolute second component wins.\<close>

definition path_join :: "string \<Rightarrow> string \<Rightarrow> string" where
  "path_join a b =
     (if startswith b ''/'' then b
      else if a = [] \<or> last a = CHR ''/'' then a @ b
      else a @ ''/'' @ b)"

text \<open>\<open>str(datetime.datetime.now())\<close>: ISO format with a space, microseconds when not zero.\<close>

definition zpad :: "nat \<Rightarrow> nat \<Rightarrow> string" where
  "zpad k n = replicate (k - length (str_nat n)) (CHR ''0'') @ str_nat n"

definition str_datetime :: "datetime \<Rightarrow> string" where
  "str_datetime d =
     zpad 4 (year d) @ ''-'' @ zpad 2 (month d) @ ''-'' @ zpad 2 (day d) @ '' '' @
     zpad 2 (hour d) @ '':'' @ zpad 2 (minute d) @ '':'' @ zpad 2 (second d) @
     (if microsecond d = 0 then [] else ''.'' @ zpad 6 (microsecond d))"

text \<open>Reading a decimal string back, to tell two renderings apart.\<close>

definition digit_val :: "char \<Rightarrow> nat" where
  "digit_val c = of_char c - 48"

definition decimal_val :: "string \<Rightarrow> nat" where
  "decimal_val s = foldl (\<lambda>a c. 10 * a + digit_val c) 0 s"

text \<open>\<open>'%s' % x\<close> for an option value that is a string or \<open>None\<close>.\<close>

definition fmt :: "string option \<Rightarrow> string" where
  "fmt x = str_of (str_val x)"

subsection \<open>Primitive effects\<close>

definition emit :: "event \<Rightarrow> world \<Rightarrow> world" where
  "emit ev w = w\<lparr>trace := trace w @ [ev]\<rparr>"

definition CheckCall :: "env \<Rightarrow> string list \<Rightarrow> world \<Rightarrow> (exn + string) \<times> world" where
  "CheckCall env command w =
     (let w' = (emit (Run command) w)\<lparr>fs := fs w ++ map_of (CheckCall_writes env command)\<rparr>
      in case CheckCall_outcome env command of
           Inl (retcode, out) \<Rightarrow> (Inl (CheckCallError command retcode out), w')
         | Inr out \<Rightarrow> (Inr out, w'))"

text \<open>
  \<open>f = open(path, 'wb'); f.write(data); f.close()\<close>: \<open>open\<close> raises \<open>IOError\<close> when the
  file cannot be created, \<open>write(None)\<close> raises \<open>TypeError\<close> after the file was created.
\<close>

definition write_file :: "env \<Rightarrow> string \<Rightarrow> string option \<Rightarrow> world \<Rightarrow> (exn + unit) \<times> world" where
  "write_file env path data w =
     (if \<not> open_wb env path then (Inl (IOError [] ''open''), w)
      else case data of
             None \<Rightarrow> (Inl TypeError, w\<lparr>fs := (fs w)(path \<mapsto> File [])\<rparr>)
           | Some bytes \<Rightarrow> (Inr (), (emit (Write path bytes) w)\<lparr>fs := (fs w)(path \<mapsto> File bytes)\<rparr>))"

text \<open>
  \<open>shutil.rmtree(d, True)\<close>: every path at or under \<open>d\<close> is removed, except a path
  whose removal fails and the directories above it; with \<open>ignore_errors\<close> true the
  failures are not reported.
\<close>

definition under :: "string \<Rightarrow> string \<Rightarrow> bool" where
  "under d p = (p = d \<or> startswith p (d @ ''/''))"

definition rmtree ::
  "string list \<Rightarrow> string \<Rightarrow> (string \<Rightarrow> node option) \<Rightarrow> (string \<Rightarrow> node option)" where
  "rmtree failures d f =
     (\<lambda>p. if under d p \<and> \<not> list_ex (\<lambda>q. f q \<noteq> None \<and> under p q) failures
          then None else f p)"

text \<open>Whether the subprocess of a command ends with return code 0.\<close>

definition succeeds :: "env \<Rightarrow> string list \<Rightarrow> bool" where
  "succeeds env command =
     (case CheckCall_outcome env command of Inl failure \<Rightarrow> False | Inr out \<Rightarrow> True)"

subsection \<open>The options object as shared mutable state\<close>

text \<open>
  The constructors of the version-control classes assign to \<open>self.options\<close>, the object
  the caller holds; an assignment made before an exception stays.  So the state of these
  functions is the pair of the options and the world.
\<close>

definition liftW ::
  "(world \<Rightarrow> (exn + 'a) \<times> world) \<Rightarrow> options \<times> world \<Rightarrow> (exn + 'a) \<times> (options \<times> world)" where
  "liftW m s = (case m (snd s) of (r, w') \<Rightarrow> (r, (fst s, w')))"

definition pure_call :: "exn + 'a \<Rightarrow> 's \<Rightarrow> (exn + 'a) \<times> 's" where
  "pure_call r s = (r, s)"

definition get_opts :: "options \<times> world \<Rightarrow> (exn + options) \<times> (options \<times> world)" where
  "get_opts s = (Inr (fst s), s)"

definition modify_opts ::
  "(options \<Rightarrow> options) \<Rightarrow> options \<times> world \<Rightarrow> (exn + unit) \<times> (options \<times> world)" where
  "modify_opts f s = (Inr (), (f (fst s), snd s))"

definition modify_world ::
  "(world \<Rightarrow> world) \<Rightarrow> options \<times> world \<Rightarrow> (exn + unit) \<times> (options \<times> world)" where
  "modify_world f s = (Inr (), (fst s, f (snd s)))"

definition whenM ::
  "(options \<Rightarrow> bool) \<Rightarrow> (options \<times> world \<Rightarrow> (exn + unit) \<times> (options \<times> world)) \<Rightarrow>
     options \<times> world \<Rightarrow> (exn + unit) \<times> (options \<times> world)" where
  "whenM c m s = (if c (fst s) then m s else (Inr (), s))"

section \<open>The version-control classes\<close>

subsection \<open>class SVN\<close>

text \<open>\<open>[scm.SVN.DiffItem(f) for f in files]\<close>, stopping at the first exception.\<close>

fun diff_items :: "env \<Rightarrow> string list \<Rightarrow> exn + string option list" where
  "diff_items env [] = Inr []"
| "diff_items env (f # fs') =
     (case SVN_DiffItem env f of
        Inl e \<Rightarrow> Inl e
      | Inr d \<Rightarrow> (case diff_items env fs' of Inl e \<Rightarrow> Inl e | Inr ds \<Rightarrow> Inr (d # ds)))"

text \<open>\<open>filter(None, xs)\<close> followed by \<open>"".join\<close>: \<open>None\<close> and empty strings are dropped.\<close>

definition join_truthy :: "string option list \<Rightarrow> string" where
  "join_truthy xs = concat (map (\<lambda>x. case x of None \<Rightarrow> [] | Some d \<Rightarrow> d) (filter truthy_str xs))"

definition files_list :: "string list option \<Rightarrow> string list" where
  "files_list x = (case x of None \<Rightarrow> [] | Some xs \<Rightarrow> xs)"

definition SVN_GenerateDiff ::
  "env \<Rightarrow> string \<Rightarrow> options \<times> world \<Rightarrow> (exn + string) \<times> (options \<times> world)" where
  "SVN_GenerateDiff env root_dir s =
     (let previous_cwd = cwd (snd s) in
      bindM (modify_world (\<lambda>w. w\<lparr>cwd := root_dir\<rparr>)) (\<lambda>_.
      bindM (whenM (\<lambda>opts. \<not> truthy_list (files opts))
               (bindM (pure_call (SVN_CaptureStatus env)) (\<lambda>status.
                modify_opts (\<lambda>opts. opts\<lparr>files := Some (map snd status)\<rparr>)))) (\<lambda>_.
      bindM get_opts (\<lambda>opts.
      bindM (pure_call (diff_items env (files_list (files opts)))) (\<lambda>items.
      bindM (modify_world (\<lambda>w. w\<lparr>cwd := previous_cwd\<rparr>)) (\<lambda>_.
      returnM (join_truthy items)))))) s)"

definition SVN_init :: "env \<Rightarrow> options \<times> world \<Rightarrow> (exn + scm_obj) \<times> (options \<times> world)" where
  "SVN_init env s =
     bindM (pure_call (SVN_GetCheckoutRoot env (cwd (snd s)))) (\<lambda>root_dir.
     bindM (whenM (\<lambda>opts. \<not> truthy_str (diff opts))
              (bindM (SVN_GenerateDiff env root_dir) (\<lambda>d.
               modify_opts (\<lambda>opts. opts\<lparr>diff := Some d\<rparr>)))) (\<lambda>_.
     bindM (whenM (\<lambda>opts. \<not> truthy_str (email opts))
              (bindM (pure_call (SVN_GetEmail env root_dir)) (\<lambda>e.
               modify_opts (\<lambda>opts. opts\<lparr>email := e\<rparr>)))) (\<lambda>_.
     returnM \<lparr>kind = SVN, checkout_root = root_dir\<rparr>))) s"

subsection \<open>class GIT\<close>

definition GIT_GenerateDiff :: "env \<Rightarrow> world \<Rightarrow> (exn + string) \<times> world" where
  "GIT_GenerateDiff env =
     bindM (CheckCall env [''git'', ''cl'', ''upstream'']) (\<lambda>out.
     bindM (CheckCall env [''git'', ''diff-tree'', ''-p'', ''--no-prefix'', strip out, ''HEAD''])
       (\<lambda>out2.
     case GenerateDiff_loop 0 (splitlines out2) of
       Inl e \<Rightarrow> raiseM e
     | Inr ls \<Rightarrow> returnM (concat ls)))"

definition GIT_GetPatchName :: "env \<Rightarrow> world \<Rightarrow> (exn + string) \<times> world" where
  "GIT_GetPatchName env =
     bindM (CheckCall env [''git'', ''symbolic-ref'', ''HEAD'']) (\<lambda>out.
     let branch = strip out in
     if \<not> startswith branch ''refs/heads/''
     then raiseM (NoTryServerAccess (''Couldn'' @ [CHR 0x27] @ ''t figure out branch name''))
     else returnM (drop (length ''refs/heads/'') branch))"

definition GIT_init :: "env \<Rightarrow> options \<times> world \<Rightarrow> (exn + scm_obj) \<times> (options \<times> world)" where
  "GIT_init env s =
     bindM (liftW (CheckCall env [''git'', ''rev-parse'', ''--show-cdup''])) (\<lambda>out.
     bindM (whenM (\<lambda>opts. \<not> truthy_str (diff opts))
              (bindM (liftW (GIT_GenerateDiff env)) (\<lambda>d.
               modify_opts (\<lambda>opts. opts\<lparr>diff := Some d\<rparr>)))) (\<lambda>_.
     bindM (whenM (\<lambda>opts. \<not> truthy_str (name opts))
              (bindM (liftW (GIT_GetPatchName env)) (\<lambda>n.
               modify_opts (\<lambda>opts. opts\<lparr>name := Some n\<rparr>)))) (\<lambda>_.
     bindM (whenM (\<lambda>opts. \<not> truthy_str (email opts))
              (bindM (pure_call (GIT_GetEmail env ''.'')) (\<lambda>e.
               modify_opts (\<lambda>opts. opts\<lparr>email := e\<rparr>)))) (\<lambda>_.
     returnM \<lparr>kind = GIT, checkout_root = abspath env (cwd (snd s)) (strip out)\<rparr>)))) s"

section \<open>GuessVCS\<close>

text \<open>
  The \<open>try\<close> block holds the probe and the construction of the git variant alike, so a
  \<open>CheckCallError\<close> of either is examined by the handler.
\<close>

definition git_probe :: "string list" where
  "git_probe = [''git'', ''rev-parse'', ''--is-inside-work-tree'']"

definition GuessVCS :: "env \<Rightarrow> options \<times> world \<Rightarrow> (exn + scm_obj) \<times> (options \<times> world)" where
  "GuessVCS env s =
     (if fs (snd s) (path_join (cwd (snd s)) ''.svn'') = Some Dir then SVN_init env s
      else
        bindM (catchM
                 (bindM (liftW (CheckCall env git_probe)) (\<lambda>_.
                  bindM (GIT_init env) (\<lambda>g. returnM (Some g))))
                 (\<lambda>e. case e of
                    CheckCallError command retcode out \<Rightarrow>
                      if retcode \<noteq> 2 then raiseM e else returnM None
                  | _ \<Rightarrow> raiseM e))
          (\<lambda>r. case r of
             Some g \<Rightarrow> returnM g
           | None \<Rightarrow> raiseM (NoTryServerAccess
               (''Could not guess version control system. '' @
                ''Are you in a working copy directory?''))) s)"

section \<open>Try server settings\<close>

definition SafeResolve :: "env \<Rightarrow> string \<Rightarrow> string list option" where
  "SafeResolve env h = getaddrinfo env h"

definition GetTryServerSettings :: "env \<Rightarrow> exn + pydict" where
  "GetTryServerSettings env =
    (let settings = [];
         settings = dict_set settings ''http_port''
                      (str_val (GetCodeReviewSetting env ''TRYSERVER_HTTP_PORT''));
         settings = dict_set settings ''http_host''
                      (str_val (GetCodeReviewSetting env ''TRYSERVER_HTTP_HOST''));
         settings = dict_set settings ''svn_repo''
                      (str_val (GetCodeReviewSetting env ''TRYSERVER_SVN_URL''));
         settings = dict_set settings ''default_project''
                      (str_val (GetCodeReviewSetting env ''TRYSERVER_PROJECT''));
         settings = dict_set settings ''default_root''
                      (str_val (GetCodeReviewSetting env ''TRYSERVER_ROOT''));
         default_patchlevel = GetCodeReviewSetting env ''TRYSERVER_PATCHLEVEL''
     in case (if truthy_str default_patchlevel then py_int env (fmt default_patchlevel)
              else Some 0) of
          None \<Rightarrow> Inl ValueError
        | Some level \<Rightarrow>
           (let settings = dict_set settings ''default_patchlevel'' (PyInt level);
                settings =
                  (if truthy (dict_get settings ''http_port'') \<and>
                      truthy (dict_get settings ''http_host'') \<and>
                      truthy_list (SafeResolve env (str_of (dict_get settings ''http_host'')))
                   then dict_set settings ''default_transport'' (PyStr ''http'')
                   else if truthy (dict_get settings ''svn_repo'')
                   then dict_set settings ''default_transport'' (PyStr ''svn'')
                   else settings)
            in Inr settings))"

text \<open>
  The settings dictionary as it stands before and after the choice of the default
  transport, for a given patch level.
\<close>

definition settings_base :: "env \<Rightarrow> int \<Rightarrow> pydict" where
  "settings_base env level =
     dict_set (dict_set (dict_set (dict_set (dict_set (dict_set []
       ''http_port'' (str_val (GetCodeReviewSetting env ''TRYSERVER_HTTP_PORT'')))
       ''http_host'' (str_val (GetCodeReviewSetting env ''TRYSERVER_HTTP_HOST'')))
       ''svn_repo'' (str_val (GetCodeReviewSetting env ''TRYSERVER_SVN_URL'')))
       ''default_project'' (str_val (GetCodeReviewSetting env ''TRYSERVER_PROJECT'')))
       ''default_root'' (str_val (GetCodeReviewSetting env ''TRYSERVER_ROOT'')))
       ''default_patchlevel'' (PyInt level)"

definition settings_final :: "env \<Rightarrow> int \<Rightarrow> pydict" where
  "settings_final env level =
                  (if truthy (dict_get (settings_base env level) ''http_port'') \<and>
                      truthy (dict_get (settings_base env level) ''http_host'') \<and>
                      truthy_list (SafeResolve env
                         (str_of (dict_get (settings_base env level) ''http_host'')))
                   then dict_set (settings_base env level) ''default_transport'' (PyStr ''http'')
                   else if truthy (dict_get (settings_base env level) ''svn_repo'')
                   then dict_set (settings_base env level) ''default_transport'' (PyStr ''svn'')
                   else settings_base env level)"

section \<open>The two transports\<close>

definition http_url :: "options \<Rightarrow> string" where
  "http_url opts = ''http://'' @ fmt (host opts) @ '':'' @ fmt (port opts) @ ''/send_try_patch''"

definition http_proxies :: "options \<Rightarrow> (string \<times> string) list option" where
  "http_proxies opts =
     (if truthy_str (proxy opts) then
        (if lower (fmt (proxy opts)) = ''none'' then Some []
         else Some [(''http'', fmt (proxy opts)), (''https'', fmt (proxy opts))])
      else None)"

text \<open>
  Only \<open>IOError\<close> is caught around \<open>urlopen\<close>; \<open>connection.read()\<close> stands outside
  the \<open>try\<close>.  Any other exception leaves the function as it is.
\<close>

definition SendChangeHTTP :: "env \<Rightarrow> options \<Rightarrow> world \<Rightarrow> (exn + unit) \<times> world" where
  "SendChangeHTTP env opts w =
    (if \<not> truthy_str (host opts) then
       (Inl (NoTryServerAccess (''Please use the --host option to specify the try '' @
                                ''server host to connect to.'')), w)
     else if \<not> truthy_str (port opts) then
       (Inl (NoTryServerAccess (''Please use the --port option to specify the try '' @
                                ''server port to connect to.'')), w)
     else
       (let values = ParseSendChangeOptions opts;
            values = dict_set values ''patch'' (str_val (diff opts));
            url_s = http_url opts;
            proxies = http_proxies opts;
            w' = emit (Post url_s values proxies) w
        in case urlopen env url_s values proxies of
             UrlIOError args args_str \<Rightarrow>
               (if truthy (dict_get values ''bot'') \<and> length args > 2 \<and>
                   args ! 2 = PyStr ''got a bad status line''
                then (Inl (NoTryServerAccess (url_s @ '' is unaccessible. Bad --bot argument?'')), w')
                else (Inl (NoTryServerAccess (url_s @ '' is unaccessible. Reason: '' @ args_str)), w'))
           | UrlRaises e sent \<Rightarrow> (Inl e, if sent then w' else w)
           | UrlConnection conn_truthy r \<Rightarrow>
               (if \<not> conn_truthy then (Inl (NoTryServerAccess (url_s @ '' is unaccessible.'')), w')
                else case r of
                       Inl e \<Rightarrow> (Inl e, w')
                     | Inr body \<Rightarrow>
                         if body \<noteq> ''OK''
                         then (Inl (NoTryServerAccess (url_s @ '' is unaccessible.'')), w')
                         else (Inr (), w'))))"

definition svn_file_name :: "string \<Rightarrow> string \<Rightarrow> datetime \<Rightarrow> string" where
  "svn_file_name u n t =
     EscapeDot u @ ''.'' @ EscapeDot n @
     (''.'' @ replace_char (CHR '':'') (CHR ''.'') (str_datetime t) @ ''.diff'')"

definition svn_description :: "env \<Rightarrow> pydict \<Rightarrow> string" where
  "svn_description env values =
     concat (map (\<lambda>(k, v). k @ ''='' @ str_of v @ NL) (dict_items env values))"

definition svn_checkout_command :: "options \<Rightarrow> string \<Rightarrow> string list" where
  "svn_checkout_command opts temp_dir =
     [''svn'', ''checkout'', ''--depth'', ''empty'', ''-q'', fmt (svn_repo opts), temp_dir] @
     (if truthy_str (email opts) then [''--username'', fmt (email opts)] else [])"

text \<open>The existence check: \<open>svn ls\<close>, whose \<open>CheckCallError\<close> means "not found".\<close>

definition svn_file_found :: "env \<Rightarrow> string \<Rightarrow> world \<Rightarrow> (exn + bool) \<times> world" where
  "svn_file_found env full_url =
     catchM (bindM (CheckCall env [''svn'', ''ls'', full_url]) (\<lambda>_. returnM True))
            (\<lambda>e. case e of CheckCallError command retcode out \<Rightarrow> returnM False
                         | _ \<Rightarrow> raiseM e)"

definition svn_put :: "env \<Rightarrow> options \<Rightarrow> string \<Rightarrow> bool \<Rightarrow> world \<Rightarrow> (exn + unit) \<times> world" where
  "svn_put env opts full_path file_found =
     (if file_found then
        bindM (CheckCall env [''svn'', ''update'', full_path]) (\<lambda>_.
        write_file env full_path (diff opts))
      else
        bindM (write_file env full_path (diff opts)) (\<lambda>_.
        bindM (CheckCall env [''svn'', ''add'', full_path]) (\<lambda>_. returnM ())))"

definition svn_write_message :: "string \<Rightarrow> string \<Rightarrow> world \<Rightarrow> (exn + unit) \<times> world" where
  "svn_write_message temp_file description w =
     (Inr (), (emit (Write temp_file description) w)\<lparr>fs := (fs w)(temp_file \<mapsto> File description)\<rparr>)"

text \<open>The steps after the existence check.\<close>

definition svn_rest ::
  "env \<Rightarrow> options \<Rightarrow> string \<Rightarrow> string \<Rightarrow> string \<Rightarrow> bool \<Rightarrow> world \<Rightarrow> (exn + unit) \<times> world" where
  "svn_rest env opts full_path temp_file description file_found =
     bindM (svn_put env opts full_path file_found) (\<lambda>_.
     bindM (svn_write_message temp_file description) (\<lambda>_.
     bindM (CheckCall env [''svn'', ''commit'', full_path, ''--file'', temp_file])
       (\<lambda>_. returnM ())))"

definition svn_body ::
  "env \<Rightarrow> options \<Rightarrow> string \<Rightarrow> string \<Rightarrow> string \<Rightarrow> world \<Rightarrow> (exn + unit) \<times> world" where
  "svn_body env opts temp_dir temp_file description =
     bindM (CheckCall env (svn_checkout_command opts temp_dir)) (\<lambda>_.
     case name opts of
       None \<Rightarrow> raiseM AttributeError
     | Some n \<Rightarrow>
        (let file_name = svn_file_name (user opts) n (now env);
             full_path = path_join temp_dir file_name;
             full_url = fmt (svn_repo opts) @ ''/'' @ file_name
         in bindM (svn_file_found env full_url) (\<lambda>file_found.
            svn_rest env opts full_path temp_file description file_found)))"

text \<open>
  \<open>except gclient_utils.CheckCallError, e: raise NoTryServerAccess(...)\<close>, as a map on
  the exception.
\<close>

definition svn_wrapped :: "exn \<Rightarrow> exn" where
  "svn_wrapped e =
     (case e of
        CheckCallError command retcode out \<Rightarrow>
          NoTryServerAccess (join '' '' command @ NL @ ''Ouput:'' @ NL @ out)
      | _ \<Rightarrow> e)"

definition svn_wrap :: "exn \<Rightarrow> world \<Rightarrow> (exn + unit) \<times> world" where
  "svn_wrap e = raiseM (svn_wrapped e)"

text \<open>The \<open>finally\<close> clause: \<open>temp_file.close()\<close> deletes the file, then \<open>rmtree\<close>.\<close>

definition svn_cleanup :: "env \<Rightarrow> string \<Rightarrow> string \<Rightarrow> world \<Rightarrow> world" where
  "svn_cleanup env temp_dir temp_file w =
     w\<lparr>fs := rmtree (rmtree_failures env) temp_dir ((fs w)(temp_file := None))\<rparr>"

text \<open>
  \<open>tempfile.mkdtemp()\<close> and \<open>tempfile.NamedTemporaryFile()\<close> are called before the
  \<open>try\<close>: an exception of the second leaves the function with the directory in place.
\<close>

definition SendChangeSVN :: "env \<Rightarrow> options \<Rightarrow> world \<Rightarrow> (exn + unit) \<times> world" where
  "SendChangeSVN env opts w =
    (if \<not> truthy_str (svn_repo opts) then
       (Inl (NoTryServerAccess (''Please use the --svn_repo option to specify the'' @
                                '' try server svn repository to connect to.'')), w)
     else
       (let values = ParseSendChangeOptions opts;
            description = svn_description env values
        in case mkdtemp env of
             Inl e \<Rightarrow> (Inl e, w)
           | Inr temp_dir \<Rightarrow>
              (let w1 = w\<lparr>fs := (fs w)(temp_dir \<mapsto> Dir)\<rparr>
               in case NamedTemporaryFile env of
                    Inl e \<Rightarrow> (Inl e, w1)
                  | Inr temp_file \<Rightarrow>
                     (let w2 = w1\<lparr>fs := (fs w1)(temp_file \<mapsto> File [])\<rparr>
                      in finallyM
                           (catchM (svn_body env opts temp_dir temp_file description) svn_wrap)
                           (svn_cleanup env temp_dir temp_file) w2))))"

section \<open>TryChange\<close>

subsection \<open>The command line\<close>

text \<open>
  The command line as \<open>optparse\<close> reads it: a sequence of options, already converted to
  their declared types, and positional arguments.  \<open>Opt_use_http\<close> and \<open>Opt_use_svn\<close>
  store a transport in \<open>send_patch\<close>; \<open>--bot\<close>, \<open>--tests\<close> and \<open>--file\<close> append.
\<close>

datatype arg =
    Opt_user string | Opt_email string | Opt_name string | Opt_issue int | Opt_patchset int
  | Opt_bot string | Opt_revision string | Opt_clobber | Opt_target string
  | Opt_project string | Opt_tests string
  | Opt_file string | Opt_diff string | Opt_url string | Opt_root string | Opt_patchlevel int
  | Opt_use_http | Opt_host string | Opt_port string | Opt_proxy string
  | Opt_use_svn | Opt_svn_repo string
  | Positional string

fun apply_arg :: "options \<Rightarrow> arg \<Rightarrow> options" where
  "apply_arg opts (Opt_user x) = opts\<lparr>user := x\<rparr>"
| "apply_arg opts (Opt_email x) = opts\<lparr>email := Some x\<rparr>"
| "apply_arg opts (Opt_name x) = opts\<lparr>name := Some x\<rparr>"
| "apply_arg opts (Opt_issue x) = opts\<lparr>issue := Some x\<rparr>"
| "apply_arg opts (Opt_patchset x) = opts\<lparr>patchset := Some x\<rparr>"
| "apply_arg opts (Opt_bot x) = opts\<lparr>bot := Some (files_list (bot opts) @ [x])\<rparr>"
| "apply_arg opts (Opt_revision x) = opts\<lparr>revision := Some x\<rparr>"
| "apply_arg opts Opt_clobber = opts\<lparr>clobber := Some True\<rparr>"
| "apply_arg opts (Opt_target x) = opts\<lparr>target := Some x\<rparr>"
| "apply_arg opts (Opt_project x) = opts\<lparr>project := Some x\<rparr>"
| "apply_arg opts (Opt_tests x) = opts\<lparr>tests := Some (files_list (tests opts) @ [x])\<rparr>"
| "apply_arg opts (Opt_file x) = opts\<lparr>files := Some (files_list (files opts) @ [x])\<rparr>"
| "apply_arg opts (Opt_diff x) = opts\<lparr>diff := Some x\<rparr>"
| "apply_arg opts (Opt_url x) = opts\<lparr>url := Some x\<rparr>"
| "apply_arg opts (Opt_root x) = opts\<lparr>root := Some x\<rparr>"
| "apply_arg opts (Opt_patchlevel x) = opts\<lparr>patchlevel := Some x\<rparr>"
| "apply_arg opts Opt_use_http = opts\<lparr>send_patch := Some ViaHTTP\<rparr>"
| "apply_arg opts (Opt_host x) = opts\<lparr>host := Some x\<rparr>"
| "apply_arg opts (Opt_port x) = opts\<lparr>port := Some x\<rparr>"
| "apply_arg opts (Opt_proxy x) = opts\<lparr>proxy := Some x\<rparr>"
| "apply_arg opts Opt_use_svn = opts\<lparr>send_patch := Some ViaSVN\<rparr>"
| "apply_arg opts (Opt_svn_repo x) = opts\<lparr>svn_repo := Some x\<rparr>"
| "apply_arg opts (Positional x) = opts"

fun positional :: "arg list \<Rightarrow> string list" where
  "positional [] = []"
| "positional (Positional x # xs) = x # positional xs"
| "positional (_ # xs) = positional xs"

definition parse_args :: "options \<Rightarrow> arg list \<Rightarrow> options \<times> string list" where
  "parse_args defaults argv = (foldl apply_arg defaults argv, positional argv)"

fun val_str :: "pyval \<Rightarrow> string option" where
  "val_str (PyStr s) = Some s"
| "val_str _ = None"

fun val_int :: "pyval \<Rightarrow> int option" where
  "val_int (PyInt i) = Some i"
| "val_int _ = None"

text \<open>\<open>transport_functions.get(default_settings.get('default_transport'))\<close>.\<close>

definition default_transport :: "pydict \<Rightarrow> transport option" where
  "default_transport settings =
     (let t = dict_get settings ''default_transport''
      in if t = PyStr ''http'' then Some ViaHTTP
         else if t = PyStr ''svn'' then Some ViaSVN
         else None)"

text \<open>The defaults given to the option parser.\<close>

definition TryChange_defaults :: "env \<Rightarrow> pydict \<Rightarrow> string list option \<Rightarrow> options" where
  "TryChange_defaults env default_settings file_list =
     \<lparr>email = (case environ env ''TRYBOT_RESULTS_EMAIL_ADDRESS'' of
                 Some e \<Rightarrow> Some e
               | None \<Rightarrow> environ env ''EMAIL_ADDRESS''),
      user = getuser env,
      name = None,
      bot = None,
      revision = None,
      clobber = None,
      tests = None,
      root = val_str (dict_get default_settings ''default_root''),
      patchlevel = val_int (dict_get default_settings ''default_patchlevel''),
      issue = None,
      patchset = None,
      target = None,
      project = val_str (dict_get default_settings ''default_project''),
      files = file_list,
      diff = None,
      url = None,
      host = val_str (dict_get default_settings ''http_host''),
      port = val_str (dict_get default_settings ''http_port''),
      proxy = None,
      svn_repo = val_str (dict_get default_settings ''svn_repo''),
      send_patch = default_transport default_settings,
      scm = None\<rparr>"

text \<open>
  "Switch the default accordingly if there was no default send\_patch."
  \<open>parser.error\<close> prints the message and exits with status 2.
\<close>

definition select_transport :: "options \<Rightarrow> exn + options" where
  "select_transport opts =
     (if send_patch opts = None then
        (if truthy_str (port opts) \<and> truthy_str (host opts)
         then Inr (opts\<lparr>send_patch := Some ViaHTTP\<rparr>)
         else if truthy_str (svn_repo opts)
         then Inr (opts\<lparr>send_patch := Some ViaSVN\<rparr>)
         else Inl (SystemExit 2 ''Please specify an access method.''))
      else Inr opts)"

subsection \<open>The body of the try statement\<close>

definition printM :: "string \<Rightarrow> options \<times> world \<Rightarrow> (exn + unit) \<times> (options \<times> world)" where
  "printM line = modify_world (emit (Print line))"

definition load_diff :: "env \<Rightarrow> options \<times> world \<Rightarrow> (exn + unit) \<times> (options \<times> world)" where
  "load_diff env s =
     (if truthy_str (url (fst s)) then
        bindM (pure_call (url_read env (fmt (url (fst s))))) (\<lambda>d.
        modify_opts (\<lambda>opts. opts\<lparr>diff := Some d\<rparr>)) s
      else if truthy_str (diff (fst s)) then
        bindM (pure_call (FileRead env (fmt (diff (fst s))))) (\<lambda>d.
        modify_opts (\<lambda>opts. opts\<lparr>diff := Some d\<rparr>)) s
      else returnM () s)"

definition guess_scm :: "env \<Rightarrow> options \<times> world \<Rightarrow> (exn + unit) \<times> (options \<times> world)" where
  "guess_scm env =
     catchM (bindM (GuessVCS env) (\<lambda>g. modify_opts (\<lambda>opts. opts\<lparr>scm := Some g\<rparr>)))
            (\<lambda>e s. case e of
               NoTryServerAccess m \<Rightarrow>
                 if \<not> truthy_str (diff (fst s)) then raiseM e s else returnM () s
             | _ \<Rightarrow> raiseM e s)"

definition get_bots :: "env \<Rightarrow> options \<times> world \<Rightarrow> (exn + unit) \<times> (options \<times> world)" where
  "get_bots env =
     whenM (\<lambda>opts. \<not> truthy_list (bot opts)) (\<lambda>s.
       if truthy_str (url (fst s))
       then raiseM (SystemExit 2 ''You need to specify which bots to use.'') s
       else
         bindM (pure_call (GetCachedFile env ''PRESUBMIT.py'')) (\<lambda>root_presubmit s'.
           case scm (fst s') of
             None \<Rightarrow> raiseM AttributeError s'
           | Some g \<Rightarrow>
               bindM (pure_call (DoGetTrySlaves env (files (fst s')) (checkout_root g)
                                   root_presubmit)) (\<lambda>b.
               modify_opts (\<lambda>opts. opts\<lparr>bot := Some b\<rparr>)) s') s)"

definition default_name :: "options \<times> world \<Rightarrow> (exn + unit) \<times> (options \<times> world)" where
  "default_name =
     whenM (\<lambda>opts. name opts = None) (\<lambda>s.
       if truthy_int (issue (fst s))
       then modify_opts (\<lambda>opts. opts\<lparr>name := Some (''Issue '' @ str_of (int_val (issue opts)))\<rparr>) s
       else bindM (modify_opts (\<lambda>opts. opts\<lparr>name := Some ''Unnamed''\<rparr>)) (\<lambda>_.
            printM ''Note: use --name NAME to change the try job name.'') s)"

definition print_email :: "options \<times> world \<Rightarrow> (exn + unit) \<times> (options \<times> world)" where
  "print_email s =
     (if \<not> truthy_str (email (fst s))
      then printM (''Warning: TRYBOT_RESULTS_EMAIL_ADDRESS is not set. Try server '' @
                   ''results might'' @ NL @ ''go to: '' @ user (fst s) @ ''@google.com.'' @ NL) s
      else printM (''Results will be emailed to: '' @ fmt (email (fst s))) s)"

definition send :: "env \<Rightarrow> options \<times> world \<Rightarrow> (exn + unit) \<times> (options \<times> world)" where
  "send env s =
     (case send_patch (fst s) of
        Some ViaHTTP \<Rightarrow> liftW (SendChangeHTTP env (fst s)) s
      | Some ViaSVN \<Rightarrow> liftW (SendChangeSVN env (fst s)) s
      | None \<Rightarrow> raiseM TypeError s)"

definition print_sent :: "options \<times> world \<Rightarrow> (exn + unit) \<times> (options \<times> world)" where
  "print_sent s =
     (case bot (fst s) of
        None \<Rightarrow> raiseM TypeError s
      | Some b \<Rightarrow>
          printM (''Patch '' @ [CHR 0x27] @ fmt (name (fst s)) @ [CHR 0x27] @
                  '' sent to try server: '' @ join '', '' b) s)"

definition TryChange_try :: "env \<Rightarrow> options \<times> world \<Rightarrow> (exn + unit) \<times> (options \<times> world)" where
  "TryChange_try env =
     bindM (load_diff env) (\<lambda>_.
     bindM (guess_scm env) (\<lambda>_.
     bindM (get_bots env) (\<lambda>_.
     bindM default_name (\<lambda>_.
     bindM print_email (\<lambda>_.
     bindM (send env) (\<lambda>_.
     print_sent))))))"

text \<open>
  \<open>except (InvalidScript, NoTryServerAccess), e\<close>: return 1, after \<open>print e\<close> unless
  \<open>swallow_exception\<close>.  Any other exception leaves the function.
\<close>

definition TryChange_except ::
  "bool \<Rightarrow> (exn + unit) \<times> (options \<times> world) \<Rightarrow> (exn + int) \<times> world" where
  "TryChange_except swallow_exception r =
     (case r of
        (Inl e, (opts, w)) \<Rightarrow>
          (case classified_str e of
             Some text_e \<Rightarrow>
               if swallow_exception then (Inr 1, w) else (Inr 1, emit (Print text_e) w)
           | None \<Rightarrow> (Inl e, w))
      | (Inr u, (opts, w)) \<Rightarrow> (Inr 0, w))"

definition nothing_to_try :: "options \<Rightarrow> bool" where
  "nothing_to_try opts =
     (\<not> truthy_list (files opts) \<and> (\<not> truthy_int (issue opts) \<and> truthy_int (patchset opts)) \<and>
      \<not> truthy_str (diff opts) \<and> \<not> truthy_str (url opts))"

definition TryChange ::
  "env \<Rightarrow> arg list \<Rightarrow> string list option \<Rightarrow> bool \<Rightarrow> world \<Rightarrow> (exn + int) \<times> world" where
  "TryChange env argv file_list swallow_exception w =
     (case GetTryServerSettings env of
        Inl e \<Rightarrow> (Inl e, w)
      | Inr default_settings \<Rightarrow>
         (case parse_args (TryChange_defaults env default_settings file_list) argv of
            (parsed, args) \<Rightarrow>
              (case select_transport parsed of
                 Inl e \<Rightarrow> (Inl e, w)
               | Inr opts \<Rightarrow>
                  (let w1 = (if args = [''help''] then emit PrintHelp w else w)
                   in if nothing_to_try opts
                      then (Inl (SystemExit 2 ''Nothing to try, changelist is empty.''), w1)
                      else TryChange_except swallow_exception (TryChange_try env (opts, w1))))))"

section \<open>A concrete environment\<close>

text \<open>
  An environment, an options record and a world on which the functions above can be
  evaluated: every subprocess succeeds with empty output and writes nothing, the try
  server answers \<open>OK\<close>, nothing is configured, the filesystem is empty, no removal
  fails.
\<close>

definition example_env :: env where
  "example_env =
     \<lparr>CheckCall_outcome = (\<lambda>command. Inr []),
      CheckCall_writes = (\<lambda>command. []),
      mkdtemp = Inr ''/tmp/tmpd'',
      NamedTemporaryFile = Inr ''/tmp/tmpf'',
      rmtree_failures = [],
      now = \<lparr>year = 2009, month = 10, day = 1, hour = 12, minute = 34, second = 56,
             microsecond = 0\<rparr>,
      open_wb = (\<lambda>path. True),
      urlopen = (\<lambda>u values proxies. UrlConnection True (Inr ''OK'')),
      dict_items = (\<lambda>d. d),
      py_int = (\<lambda>s. None),
      GetCodeReviewSetting = (\<lambda>k. None),
      getaddrinfo = (\<lambda>h. None),
      getuser = ''joe'',
      environ = (\<lambda>k. None),
      abspath = (\<lambda>d p. path_join d p),
      SVN_GetCheckoutRoot = (\<lambda>d. Inr d),
      SVN_CaptureStatus = Inr [],
      SVN_DiffItem = (\<lambda>f. Inr None),
      SVN_GetEmail = (\<lambda>d. Inr None),
      GIT_GetEmail = (\<lambda>d. Inr None),
      url_read = (\<lambda>u. Inr []),
      FileRead = (\<lambda>p. Inr []),
      GetCachedFile = (\<lambda>p. Inr None),
      DoGetTrySlaves = (\<lambda>fl r p. Inr [])\<rparr>"

definition example_options :: options where
  "example_options =
     \<lparr>email = None, user = ''joe'', name = Some ''fix'', bot = None, revision = None,
      clobber = None, tests = None, root = None, patchlevel = Some 0, issue = None,
      patchset = None, target = None, project = None, files = None,
      diff = Some ''+x'', url = None, host = Some ''try.example.org'', port = Some ''8018'',
      proxy = None, svn_repo = Some ''svn://svn.example.org/try'', send_patch = None,
      scm = None\<rparr>"

definition example_world :: world where
  "example_world = \<lparr>fs = Map.empty, cwd = ''/work'', trace = []\<rparr>"

section \<open>Payload assembly\<close>

lemma map_of_dict_set: "map_of (dict_set d k v) k' = (if k' = k then Some v else map_of d k')"
  by (induction d) auto

lemma map_of_set_if:
  "map_of (set_if c d k v) k' = (if c \<and> k' = k then Some v else map_of d k')"
  by (simp add: set_if_def map_of_dict_set)

lemma keys_dict_set:
  "map fst (dict_set d k v) = (if k \<in> set (map fst d) then map fst d else map fst d @ [k])"
proof (induction d)
  case Nil
  show ?case by simp
next
  case (Cons a d)
  obtain k' v' where a: "a = (k', v')" by (cases a)
  show ?case
  proof (cases "k' = k")
    case True
    with a show ?thesis by simp
  next
    case False
    with a Cons show ?thesis by simp
  qed
qed

lemma distinct_dict_set: "distinct (map fst d) \<Longrightarrow> distinct (map fst (dict_set d k v))"
  by (simp add: keys_dict_set)

lemma distinct_set_if: "distinct (map fst d) \<Longrightarrow> distinct (map fst (set_if c d k v))"
  by (simp add: set_if_def distinct_dict_set)

text \<open>
  C1.  For every options record, the mapping built by \<open>_ParseSendChangeOptions\<close> binds
  \<open>user\<close> and \<open>name\<close> unconditionally, and has each of the optional keys email, bot,
  revision, clobber, tests, root, patchlevel, issue, patchset, target and project exactly
  when the option value is truthy (non-empty); so an empty option leaves its key unbound
  rather than bound to an empty placeholder.  No key is bound twice.
\<close>

theorem payload_keys:
  "map_of (ParseSendChangeOptions opts) ''user'' = Some (PyStr (user opts)) \<and>
   map_of (ParseSendChangeOptions opts) ''name'' = Some (str_val (name opts)) \<and>
   (''email'' \<in> dom (map_of (ParseSendChangeOptions opts))) = truthy_str (email opts) \<and>
   (''bot'' \<in> dom (map_of (ParseSendChangeOptions opts))) = truthy_list (bot opts) \<and>
   (''revision'' \<in> dom (map_of (ParseSendChangeOptions opts))) = truthy_str (revision opts) \<and>
   (''clobber'' \<in> dom (map_of (ParseSendChangeOptions opts))) = truthy_bool (clobber opts) \<and>
   (''tests'' \<in> dom (map_of (ParseSendChangeOptions opts))) = truthy_list (tests opts) \<and>
   (''root'' \<in> dom (map_of (ParseSendChangeOptions opts))) = truthy_str (root opts) \<and>
   (''patchlevel'' \<in> dom (map_of (ParseSendChangeOptions opts))) = truthy_int (patchlevel opts) \<and>
   (''issue'' \<in> dom (map_of (ParseSendChangeOptions opts))) = truthy_int (issue opts) \<and>
   (''patchset'' \<in> dom (map_of (ParseSendChangeOptions opts))) = truthy_int (patchset opts) \<and>
   (''target'' \<in> dom (map_of (ParseSendChangeOptions opts))) = truthy_str (target opts) \<and>
   (''project'' \<in> dom (map_of (ParseSendChangeOptions opts))) = truthy_str (project opts) \<and>
   distinct (map fst (ParseSendChangeOptions opts))"
  unfolding ParseSendChangeOptions_def Let_def
  by (simp add: map_of_set_if map_of_dict_set distinct_set_if distinct_dict_set domIff)

section \<open>The added-file header rewrite\<close>


lemma GenerateDiff_loop_Inl:
  "GenerateDiff_loop i ls = Inl e \<Longrightarrow>
     e = IndexError \<and> i < length ls \<and> startswith (ls ! (length ls - 1)) ''--- /dev/null''"
proof (induction i ls rule: GenerateDiff_loop.induct)
  case (1 i ls)
  show ?case
  proof (cases "i < length ls")
    case False
    with "1.prems" show ?thesis by (simp add: GenerateDiff_loop.simps [of i ls])
  next
    case True
    show ?thesis
    proof (cases "startswith (ls ! i) ''--- /dev/null''")
      case False
      with True "1.prems" have "GenerateDiff_loop (i + 1) ls = Inl e"
        by (simp add: GenerateDiff_loop.simps [of i ls])
      from "1.IH"(2) [OF True False this] True show ?thesis by simp
    next
      case hd: True
      show ?thesis
      proof (cases "i + 1 < length ls")
        case False
        with True have i: "i = length ls - 1" by simp
        from True hd False have "GenerateDiff_loop i ls = Inl IndexError"
          by (simp add: GenerateDiff_loop.simps [of i ls])
        with "1.prems" True hd i show ?thesis by simp
      next
        case nxt: True
        let ?ls' = "ls[i := ''--- '' @ drop 4 (ls ! (i + 1))]"
        from True hd nxt "1.prems" have "GenerateDiff_loop (i + 1) ?ls' = Inl e"
          by (simp add: GenerateDiff_loop.simps [of i ls])
        from "1.IH"(1) [OF True hd nxt this] nxt True show ?thesis by simp
      qed
    qed
  qed
qed

lemma GenerateDiff_loop_last:
  "i < length ls \<Longrightarrow> startswith (ls ! (length ls - 1)) ''--- /dev/null'' \<Longrightarrow>
     GenerateDiff_loop i ls = Inl IndexError"
proof (induction i ls rule: GenerateDiff_loop.induct)
  case (1 i ls)
  show ?case
  proof (cases "i + 1 < length ls")
    case False
    with "1.prems" have "i = length ls - 1" by simp
    with "1.prems" have "startswith (ls ! i) ''--- /dev/null''" by simp
    with "1.prems"(1) False show ?thesis by (simp add: GenerateDiff_loop.simps [of i ls])
  next
    case nxt: True
    show ?thesis
    proof (cases "startswith (ls ! i) ''--- /dev/null''")
      case False
      from "1.IH"(2) [OF "1.prems"(1) False] nxt "1.prems" False show ?thesis
        by (simp add: GenerateDiff_loop.simps [of i ls])
    next
      case hd: True
      from "1.IH"(1) [OF "1.prems"(1) hd nxt] nxt "1.prems" hd show ?thesis
        by (simp add: GenerateDiff_loop.simps [of i ls])
    qed
  qed
qed

lemma GenerateDiff_loop_cases:
  "GenerateDiff_loop 0 ls = Inl IndexError \<or> (\<exists>r. GenerateDiff_loop 0 ls = Inr r)"
proof (cases "GenerateDiff_loop 0 ls")
  case (Inl e)
  with GenerateDiff_loop_Inl [OF Inl] show ?thesis by simp
next
  case (Inr r)
  then show ?thesis by simp
qed

lemma GenerateDiff_loop_followed:
  assumes ok: "GenerateDiff_loop 0 ls = Inr r"
    and i: "i < length ls"
    and hd: "startswith (ls ! i) ''--- /dev/null''"
  shows "i + 1 < length ls"
proof (rule ccontr)
  assume "\<not> i + 1 < length ls"
  with i have eq: "length ls - 1 = i" by simp
  from i have pos: "0 < length ls" by (cases ls) simp_all
  from hd eq have "startswith (ls ! (length ls - 1)) ''--- /dev/null''" by simp
  from GenerateDiff_loop_last [OF pos this] ok show False by simp
qed




text \<open>
  C10.  The rewrite returns a result exactly when every line that starts with
  \<open>--- /dev/null\<close> has a line after it; otherwise, that is when the last line of the
  diff starts with \<open>--- /dev/null\<close>, the unguarded read of \<open>diff[i+1]\<close> raises
  \<open>IndexError\<close>.
\<close>

theorem GenerateDiff_total_iff_header_followed:
  "((\<exists>r. GenerateDiff_loop 0 ls = Inr r) =
      (\<forall>i<length ls. startswith (ls ! i) ''--- /dev/null'' \<longrightarrow> i + 1 < length ls)) \<and>
   ((\<nexists>r. GenerateDiff_loop 0 ls = Inr r) = (GenerateDiff_loop 0 ls = Inl IndexError))"
proof (intro conjI)
  show "(\<exists>r. GenerateDiff_loop 0 ls = Inr r) =
      (\<forall>i<length ls. startswith (ls ! i) ''--- /dev/null'' \<longrightarrow> i + 1 < length ls)"
  proof
    assume "\<exists>r. GenerateDiff_loop 0 ls = Inr r"
    then obtain r where ok: "GenerateDiff_loop 0 ls = Inr r" ..
    show "\<forall>i<length ls. startswith (ls ! i) ''--- /dev/null'' \<longrightarrow> i + 1 < length ls"
    proof (intro allI impI)
      fix i assume i: "i < length ls" and hd: "startswith (ls ! i) ''--- /dev/null''"
      show "i + 1 < length ls"
        using GenerateDiff_loop_followed [OF ok i hd] .
    qed
  next
    assume foll: "\<forall>i<length ls. startswith (ls ! i) ''--- /dev/null'' \<longrightarrow> i + 1 < length ls"
    show "\<exists>r. GenerateDiff_loop 0 ls = Inr r"
    proof (cases "GenerateDiff_loop 0 ls")
      case (Inl e)
      from GenerateDiff_loop_Inl [OF Inl]
      have "0 < length ls" and "startswith (ls ! (length ls - 1)) ''--- /dev/null''"
        by simp_all
      with foll [rule_format, of "length ls - 1"] show ?thesis by simp
    next
      case (Inr r)
      then show ?thesis by blast
    qed
  qed
next
  show "(\<nexists>r. GenerateDiff_loop 0 ls = Inr r) = (GenerateDiff_loop 0 ls = Inl IndexError)"
    using GenerateDiff_loop_cases [of ls] by auto
qed

theorem GenerateDiff_total_iff_header_followed_witness:
  "(\<exists>r. GenerateDiff_loop 0 [''--- /dev/null'' @ NL, ''+++ a'' @ NL] = Inr r) \<and>
   GenerateDiff_loop 0 [''+++ a'' @ NL, ''--- /dev/null'' @ NL] = Inl IndexError"
proof -
  have a: "\<forall>i<length [''--- /dev/null'' @ NL, ''+++ a'' @ NL].
      startswith ([''--- /dev/null'' @ NL, ''+++ a'' @ NL] ! i) ''--- /dev/null''
        \<longrightarrow> i + 1 < length [''--- /dev/null'' @ NL, ''+++ a'' @ NL]"
    by (simp add: less_Suc_eq startswith_def NL_def)
  have b: "\<not> (\<forall>i<length [''+++ a'' @ NL, ''--- /dev/null'' @ NL].
      startswith ([''+++ a'' @ NL, ''--- /dev/null'' @ NL] ! i) ''--- /dev/null''
        \<longrightarrow> i + 1 < length [''+++ a'' @ NL, ''--- /dev/null'' @ NL])"
    by (simp add: startswith_def NL_def) (rule exI [of _ 1], simp)
  from a GenerateDiff_total_iff_header_followed
    [of "[''--- /dev/null'' @ NL, ''+++ a'' @ NL]"]
  have 1: "\<exists>r. GenerateDiff_loop 0 [''--- /dev/null'' @ NL, ''+++ a'' @ NL] = Inr r"
    by blast
  from b GenerateDiff_total_iff_header_followed
    [of "[''+++ a'' @ NL, ''--- /dev/null'' @ NL]"]
  have 2: "GenerateDiff_loop 0 [''+++ a'' @ NL, ''--- /dev/null'' @ NL] = Inl IndexError"
    by blast
  from 1 2 show ?thesis by simp
qed

section \<open>Direct delivery\<close>




section \<open>Detection of the version control system\<close>

lemma GuessVCS_svn:
  "fs (snd s) (path_join (cwd (snd s)) ''.svn'') = Some Dir \<Longrightarrow> GuessVCS env s = SVN_init env s"
  by (simp add: GuessVCS_def)

lemma GuessVCS_probe_fail:
  assumes "fs (snd s) (path_join (cwd (snd s)) ''.svn'') \<noteq> Some Dir"
    and "CheckCall_outcome env git_probe = Inl (retcode, out)"
  shows "fst (GuessVCS env s) =
     (if retcode = 2
      then Inl (NoTryServerAccess (''Could not guess version control system. '' @
                ''Are you in a working copy directory?''))
      else Inl (CheckCallError git_probe retcode out))"
  using assms
  by (simp add: GuessVCS_def bindM_def catchM_def liftW_def CheckCall_def Let_def raiseM_def
      returnM_def split: prod.splits sum.splits)

lemma GuessVCS_probe_fail_trace:
  assumes "fs (snd s) (path_join (cwd (snd s)) ''.svn'') \<noteq> Some Dir"
    and "CheckCall_outcome env git_probe = Inl (retcode, out)"
  shows "trace (snd (snd (GuessVCS env s))) = trace (snd s) @ [Run git_probe]"
  using assms
  by (simp add: GuessVCS_def bindM_def catchM_def liftW_def CheckCall_def Let_def raiseM_def
      returnM_def emit_def split: prod.splits sum.splits)

lemma GuessVCS_probe_ok:
  assumes "fs (snd s) (path_join (cwd (snd s)) ''.svn'') \<noteq> Some Dir"
    and "CheckCall_outcome env git_probe = Inr out"
  shows "fst (GuessVCS env s) =
     (case fst (GIT_init env (fst s, snd (CheckCall env git_probe (snd s)))) of
        Inr g \<Rightarrow> Inr g
      | Inl (CheckCallError command retcode out') \<Rightarrow>
          if retcode = 2
          then Inl (NoTryServerAccess (''Could not guess version control system. '' @
                ''Are you in a working copy directory?''))
          else Inl (CheckCallError command retcode out')
      | Inl e \<Rightarrow> Inl e)"
  using assms
  by (simp add: GuessVCS_def bindM_def catchM_def liftW_def CheckCall_def Let_def raiseM_def
      returnM_def split: prod.splits sum.splits exn.splits)

lemma SVN_init_kind: "fst (SVN_init env s) = Inr g \<Longrightarrow> kind g = SVN"
  by (auto simp add: SVN_init_def bindM_def pure_call_def whenM_def returnM_def modify_opts_def
      split: prod.splits sum.splits if_splits)

lemma GIT_init_kind: "fst (GIT_init env s) = Inr g \<Longrightarrow> kind g = GIT"
  by (auto simp add: GIT_init_def bindM_def pure_call_def whenM_def returnM_def modify_opts_def
      split: prod.splits sum.splits if_splits)

lemma SVN_GenerateDiff_trace:
  "trace (snd (snd (SVN_GenerateDiff env r s))) = trace (snd s)"
  by (simp add: SVN_GenerateDiff_def bindM_def pure_call_def whenM_def returnM_def
      modify_opts_def modify_world_def get_opts_def Let_def
      split: prod.splits sum.splits)

lemma SVN_init_trace: "trace (snd (snd (SVN_init env s))) = trace (snd s)"
proof (cases "SVN_GetCheckoutRoot env (cwd (snd s))")
  case (Inl e)
  then show ?thesis by (simp add: SVN_init_def bindM_def pure_call_def)
next
  case (Inr r)
  show ?thesis
  proof (cases "truthy_str (diff (fst s))")
    case True
    with Inr show ?thesis
      by (simp add: SVN_init_def bindM_def pure_call_def whenM_def returnM_def
          modify_opts_def split: prod.splits sum.splits)
  next
    case False
    obtain r1 s1 where g: "SVN_GenerateDiff env r s = (r1, s1)"
      by (cases "SVN_GenerateDiff env r s")
    with SVN_GenerateDiff_trace [of env r s] have t: "trace (snd s1) = trace (snd s)" by simp
    from Inr False g t show ?thesis
      by (auto simp add: SVN_init_def bindM_def pure_call_def whenM_def returnM_def
          modify_opts_def split: prod.splits sum.splits)
  qed
qed

text \<open>
  C4.  In every working directory: when the \<open>.svn\<close> marker directory is present,
  \<open>GuessVCS\<close> is the construction of the Subversion variant, whatever git would say, and
  the git probe is not run.  Otherwise the probe is run: a failure with return code 2
  (tool not installed) counts as not detected, and as no backend is detected then the
  result is \<open>NoTryServerAccess\<close>; a failure with any other code is raised unchanged; and
  when the probe succeeds the result is that of the construction of the git variant,
  whose own \<open>CheckCallError\<close> is examined in the same way.
\<close>

theorem GuessVCS_detection:
  "(fs (snd s) (path_join (cwd (snd s)) ''.svn'') = Some Dir \<longrightarrow>
      GuessVCS env s = SVN_init env s \<and>
      (\<forall>g. fst (GuessVCS env s) = Inr g \<longrightarrow> kind g = SVN) \<and>
      trace (snd (snd (GuessVCS env s))) = trace (snd s)) \<and>
   (fs (snd s) (path_join (cwd (snd s)) ''.svn'') \<noteq> Some Dir \<longrightarrow>
      (\<forall>retcode out. CheckCall_outcome env git_probe = Inl (retcode, out) \<longrightarrow>
         fst (GuessVCS env s) =
           (if retcode = 2
            then Inl (NoTryServerAccess (''Could not guess version control system. '' @
                      ''Are you in a working copy directory?''))
            else Inl (CheckCallError git_probe retcode out)) \<and>
         trace (snd (snd (GuessVCS env s))) = trace (snd s) @ [Run git_probe]) \<and>
      (\<forall>out. CheckCall_outcome env git_probe = Inr out \<longrightarrow>
         fst (GuessVCS env s) =
           (case fst (GIT_init env (fst s, snd (CheckCall env git_probe (snd s)))) of
              Inr g \<Rightarrow> Inr g
            | Inl (CheckCallError command retcode out') \<Rightarrow>
                if retcode = 2
                then Inl (NoTryServerAccess (''Could not guess version control system. '' @
                      ''Are you in a working copy directory?''))
                else Inl (CheckCallError command retcode out')
            | Inl e \<Rightarrow> Inl e) \<and>
         (\<forall>g. fst (GuessVCS env s) = Inr g \<longrightarrow> kind g = GIT)))"
proof (intro conjI impI allI)
  assume m: "fs (snd s) (path_join (cwd (snd s)) ''.svn'') = Some Dir"
  show "GuessVCS env s = SVN_init env s" by (rule GuessVCS_svn [OF m])
  show "trace (snd (snd (GuessVCS env s))) = trace (snd s)"
    by (simp add: GuessVCS_svn [OF m] SVN_init_trace)
  fix g assume "fst (GuessVCS env s) = Inr g"
  then show "kind g = SVN" by (simp add: GuessVCS_svn [OF m] SVN_init_kind)
next
  fix retcode out
  assume m: "fs (snd s) (path_join (cwd (snd s)) ''.svn'') \<noteq> Some Dir"
    and p: "CheckCall_outcome env git_probe = Inl (retcode, out)"
  show "fst (GuessVCS env s) =
           (if retcode = 2
            then Inl (NoTryServerAccess (''Could not guess version control system. '' @
                      ''Are you in a working copy directory?''))
            else Inl (CheckCallError git_probe retcode out))"
    by (rule GuessVCS_probe_fail [OF m p])
  show "trace (snd (snd (GuessVCS env s))) = trace (snd s) @ [Run git_probe]"
    by (rule GuessVCS_probe_fail_trace [OF m p])
next
  fix out
  assume m: "fs (snd s) (path_join (cwd (snd s)) ''.svn'') \<noteq> Some Dir"
    and p: "CheckCall_outcome env git_probe = Inr out"
  note eq = GuessVCS_probe_ok [OF m p]
  show "fst (GuessVCS env s) =
           (case fst (GIT_init env (fst s, snd (CheckCall env git_probe (snd s)))) of
              Inr g \<Rightarrow> Inr g
            | Inl (CheckCallError command retcode out') \<Rightarrow>
                if retcode = 2
                then Inl (NoTryServerAccess (''Could not guess version control system. '' @
                      ''Are you in a working copy directory?''))
                else Inl (CheckCallError command retcode out')
            | Inl e \<Rightarrow> Inl e)"
    by (rule eq)
  fix g assume "fst (GuessVCS env s) = Inr g"
  with eq show "kind g = GIT"
    by (auto split: sum.splits exn.splits if_splits dest: GIT_init_kind)
qed

theorem GuessVCS_detection_witness:
  "fs (example_world\<lparr>fs := [''/work/.svn'' \<mapsto> Dir]\<rparr>)
      (path_join (cwd (example_world\<lparr>fs := [''/work/.svn'' \<mapsto> Dir]\<rparr>)) ''.svn'') = Some Dir \<and>
   GuessVCS example_env (example_options, example_world\<lparr>fs := [''/work/.svn'' \<mapsto> Dir]\<rparr>)
     = SVN_init example_env (example_options, example_world\<lparr>fs := [''/work/.svn'' \<mapsto> Dir]\<rparr>) \<and>
   fs example_world (path_join (cwd example_world) ''.svn'') \<noteq> Some Dir \<and>
   CheckCall_outcome (example_env\<lparr>CheckCall_outcome := (\<lambda>c. Inl (2, []))\<rparr>) git_probe
     = Inl (2, []) \<and>
   fst (GuessVCS (example_env\<lparr>CheckCall_outcome := (\<lambda>c. Inl (2, []))\<rparr>)
          (example_options, example_world))
     = Inl (NoTryServerAccess (''Could not guess version control system. '' @
                      ''Are you in a working copy directory?'')) \<and>
   fst (GuessVCS (example_env\<lparr>CheckCall_outcome := (\<lambda>c. Inl (128, ''fatal''))\<rparr>)
          (example_options, example_world))
     = Inl (CheckCallError git_probe 128 ''fatal'') \<and>
   CheckCall_outcome example_env git_probe = Inr [] \<and>
   (\<exists>g. fst (GuessVCS example_env (example_options, example_world)) = Inr g \<and> kind g = GIT)"
proof -
  let ?ws = "example_world\<lparr>fs := [''/work/.svn'' \<mapsto> Dir]\<rparr>"
  let ?e2 = "example_env\<lparr>CheckCall_outcome := (\<lambda>c. Inl (2, []))\<rparr>"
  let ?e3 = "example_env\<lparr>CheckCall_outcome := (\<lambda>c. Inl (128, ''fatal''))\<rparr>"
  have m1: "fs ?ws (path_join (cwd ?ws) ''.svn'') = Some Dir"
    by (simp add: example_world_def path_join_def startswith_def)
  have m2: "fs (snd (example_options, example_world))
       (path_join (cwd (snd (example_options, example_world))) ''.svn'') \<noteq> Some Dir"
    by (simp add: example_world_def)
  have p2: "CheckCall_outcome ?e2 git_probe = Inl (2, [])" by simp
  have p3: "CheckCall_outcome ?e3 git_probe = Inl (128, ''fatal'')" by simp
  have p4: "CheckCall_outcome example_env git_probe = Inr []" by (simp add: example_env_def)
  from GuessVCS_detection [of "(example_options, ?ws)" example_env] m1
  have 1: "GuessVCS example_env (example_options, ?ws) = SVN_init example_env (example_options, ?ws)"
    by simp
  from GuessVCS_detection [of "(example_options, example_world)" ?e2] m2 p2
  have 2: "fst (GuessVCS ?e2 (example_options, example_world))
     = Inl (NoTryServerAccess (''Could not guess version control system. '' @
                      ''Are you in a working copy directory?''))"
    by simp
  from GuessVCS_detection [of "(example_options, example_world)" ?e3] m2 p3
  have 3: "fst (GuessVCS ?e3 (example_options, example_world))
     = Inl (CheckCallError git_probe 128 ''fatal'')"
    by simp
  have r4: "fst (GuessVCS example_env (example_options, example_world))
      = Inr \<lparr>kind = GIT, checkout_root = ''/work/''\<rparr>"
    by code_simp
  from GuessVCS_detection [of "(example_options, example_world)" example_env] m2 p4 r4
  have "kind \<lparr>kind = GIT, checkout_root = ''/work/''\<rparr> = GIT"
    by blast
  with r4 have 4: "\<exists>g. fst (GuessVCS example_env (example_options, example_world)) = Inr g \<and>
      kind g = GIT"
    by blast
  from m1 m2 p2 1 2 3 p4 4 show ?thesis by simp
qed

section \<open>Choice of the transport\<close>

lemma dict_get_dict_set:
  "dict_get (dict_set d k v) k' = (if k' = k then v else dict_get d k')"
  by (simp add: dict_get_def map_of_dict_set)

lemma truthy_str_val [simp]: "truthy (str_val x) = truthy_str x"
  by (cases x) simp_all

lemma val_str_val [simp]: "val_str (str_val x) = x"
  by (cases x) simp_all

lemma str_of_str_val: "str_of (str_val x) = fmt x"
  by (simp add: fmt_def)

lemma dict_get_Nil [simp]: "dict_get [] k = PyNone"
  by (simp add: dict_get_def)

lemma GetTryServerSettings_unfold:
  "GetTryServerSettings env =
     (case (if truthy_str (GetCodeReviewSetting env ''TRYSERVER_PATCHLEVEL'')
               then py_int env (fmt (GetCodeReviewSetting env ''TRYSERVER_PATCHLEVEL''))
               else Some 0) of
        None \<Rightarrow> Inl ValueError
      | Some level \<Rightarrow> Inr (settings_final env level))"
  unfolding GetTryServerSettings_def Let_def settings_final_def settings_base_def ..

lemma settings_base_get:
    "dict_get (settings_base env level) ''http_port''
             = str_val (GetCodeReviewSetting env ''TRYSERVER_HTTP_PORT'')"
    "dict_get (settings_base env level) ''http_host''
             = str_val (GetCodeReviewSetting env ''TRYSERVER_HTTP_HOST'')"
    "dict_get (settings_base env level) ''svn_repo''
             = str_val (GetCodeReviewSetting env ''TRYSERVER_SVN_URL'')"
    "dict_get (settings_base env level) ''default_transport'' = PyNone"
    by (simp_all add: settings_base_def dict_get_dict_set del: dict_set.simps)

lemma settings_cases:
  assumes "GetTryServerSettings env = Inr st"
  shows "\<exists>level. st = settings_final env level"
  using assms unfolding GetTryServerSettings_unfold
  by (auto split: option.splits)

lemma settings_final_get:
    "dict_get (settings_final env level) ''http_port''
             = str_val (GetCodeReviewSetting env ''TRYSERVER_HTTP_PORT'')"
    "dict_get (settings_final env level) ''http_host''
             = str_val (GetCodeReviewSetting env ''TRYSERVER_HTTP_HOST'')"
    "dict_get (settings_final env level) ''svn_repo''
             = str_val (GetCodeReviewSetting env ''TRYSERVER_SVN_URL'')"
    "default_transport (settings_final env level) =
           (if truthy_str (GetCodeReviewSetting env ''TRYSERVER_HTTP_PORT'') \<and>
               truthy_str (GetCodeReviewSetting env ''TRYSERVER_HTTP_HOST'') \<and>
               truthy_list (getaddrinfo env (fmt (GetCodeReviewSetting env ''TRYSERVER_HTTP_HOST'')))
            then Some ViaHTTP
            else if truthy_str (GetCodeReviewSetting env ''TRYSERVER_SVN_URL'') then Some ViaSVN
            else None)"
  by (simp_all add: settings_final_def settings_base_get dict_get_dict_set default_transport_def
      SafeResolve_def str_of_str_val del: dict_set.simps)

lemma apply_arg_send_patch:
  "a \<noteq> Opt_use_http \<Longrightarrow> a \<noteq> Opt_use_svn \<Longrightarrow> send_patch (apply_arg opts a) = send_patch opts"
  by (cases a) simp_all

lemma foldl_apply_arg_send_patch:
  "Opt_use_http \<notin> set argv \<Longrightarrow> Opt_use_svn \<notin> set argv \<Longrightarrow>
     send_patch (foldl apply_arg opts argv) = send_patch opts"
  by (induction argv arbitrary: opts) (auto simp: apply_arg_send_patch)

lemma parse_args_fst: "fst (parse_args d argv) = foldl apply_arg d argv"
  by (simp add: parse_args_def)

lemma defaults_send_patch:
  "send_patch (TryChange_defaults env st fl) = default_transport st"
  by (simp add: TryChange_defaults_def)

text \<open>
  C3 (amended).  When the command line forces no transport: if a host and a port are
  configured and the host name resolves, the transport is the direct one; otherwise, if
  a repository URL is configured, the mediated one; otherwise the direct one if the host
  and port options are both set (as they are when host and port are configured but the
  host name does not resolve), otherwise the mediated one if the repository option is
  set on the command line; and only when neither holds does the run stop, with
  \<open>SystemExit(2)\<close> and an unchanged world, hence before any delivery attempt.
\<close>

theorem transport_selection:
  assumes st: "GetTryServerSettings env = Inr st"
    and nf: "Opt_use_http \<notin> set argv" "Opt_use_svn \<notin> set argv"
    and pa: "parse_args (TryChange_defaults env st fl) argv = (parsed, args)"
  shows
   "(truthy_str (GetCodeReviewSetting env ''TRYSERVER_HTTP_PORT'') \<and>
     truthy_str (GetCodeReviewSetting env ''TRYSERVER_HTTP_HOST'') \<and>
     truthy_list (getaddrinfo env (fmt (GetCodeReviewSetting env ''TRYSERVER_HTTP_HOST'')))
       \<longrightarrow> select_transport parsed = Inr parsed \<and> send_patch parsed = Some ViaHTTP) \<and>
    (\<not> (truthy_str (GetCodeReviewSetting env ''TRYSERVER_HTTP_PORT'') \<and>
        truthy_str (GetCodeReviewSetting env ''TRYSERVER_HTTP_HOST'') \<and>
        truthy_list (getaddrinfo env (fmt (GetCodeReviewSetting env ''TRYSERVER_HTTP_HOST'')))) \<and>
     truthy_str (GetCodeReviewSetting env ''TRYSERVER_SVN_URL'')
       \<longrightarrow> select_transport parsed = Inr parsed \<and> send_patch parsed = Some ViaSVN) \<and>
    (\<not> (truthy_str (GetCodeReviewSetting env ''TRYSERVER_HTTP_PORT'') \<and>
        truthy_str (GetCodeReviewSetting env ''TRYSERVER_HTTP_HOST'') \<and>
        truthy_list (getaddrinfo env (fmt (GetCodeReviewSetting env ''TRYSERVER_HTTP_HOST'')))) \<and>
     \<not> truthy_str (GetCodeReviewSetting env ''TRYSERVER_SVN_URL'')
       \<longrightarrow> select_transport parsed =
             (if truthy_str (port parsed) \<and> truthy_str (host parsed)
              then Inr (parsed\<lparr>send_patch := Some ViaHTTP\<rparr>)
              else if truthy_str (svn_repo parsed)
              then Inr (parsed\<lparr>send_patch := Some ViaSVN\<rparr>)
              else Inl (SystemExit 2 ''Please specify an access method.'')) \<and>
           (\<not> (truthy_str (port parsed) \<and> truthy_str (host parsed)) \<and>
            \<not> truthy_str (svn_repo parsed)
              \<longrightarrow> TryChange env argv fl swallow w =
                    (Inl (SystemExit 2 ''Please specify an access method.''), w)))"
proof -
  from settings_cases [OF st] obtain level where l: "st = settings_final env level" ..
  from pa have p: "parsed = foldl apply_arg (TryChange_defaults env st fl) argv"
    by (simp add: parse_args_def)
  have sp: "send_patch parsed = default_transport st"
    by (simp add: p foldl_apply_arg_send_patch [OF nf] defaults_send_patch)
  note dt = settings_final_get(4) [of env level, folded l]
  show ?thesis
  proof (intro conjI impI)
    assume a: "truthy_str (GetCodeReviewSetting env ''TRYSERVER_HTTP_PORT'') \<and>
     truthy_str (GetCodeReviewSetting env ''TRYSERVER_HTTP_HOST'') \<and>
     truthy_list (getaddrinfo env (fmt (GetCodeReviewSetting env ''TRYSERVER_HTTP_HOST'')))"
    with sp dt show "send_patch parsed = Some ViaHTTP" by simp
    then show "select_transport parsed = Inr parsed" by (simp add: select_transport_def)
  next
    assume a: "\<not> (truthy_str (GetCodeReviewSetting env ''TRYSERVER_HTTP_PORT'') \<and>
        truthy_str (GetCodeReviewSetting env ''TRYSERVER_HTTP_HOST'') \<and>
        truthy_list (getaddrinfo env (fmt (GetCodeReviewSetting env ''TRYSERVER_HTTP_HOST'')))) \<and>
     truthy_str (GetCodeReviewSetting env ''TRYSERVER_SVN_URL'')"
    with sp dt show "send_patch parsed = Some ViaSVN" by auto
    then show "select_transport parsed = Inr parsed" by (simp add: select_transport_def)
  next
    assume a: "\<not> (truthy_str (GetCodeReviewSetting env ''TRYSERVER_HTTP_PORT'') \<and>
        truthy_str (GetCodeReviewSetting env ''TRYSERVER_HTTP_HOST'') \<and>
        truthy_list (getaddrinfo env (fmt (GetCodeReviewSetting env ''TRYSERVER_HTTP_HOST'')))) \<and>
     \<not> truthy_str (GetCodeReviewSetting env ''TRYSERVER_SVN_URL'')"
    with sp dt have n: "send_patch parsed = None" by auto
    then show sel: "select_transport parsed =
             (if truthy_str (port parsed) \<and> truthy_str (host parsed)
              then Inr (parsed\<lparr>send_patch := Some ViaHTTP\<rparr>)
              else if truthy_str (svn_repo parsed)
              then Inr (parsed\<lparr>send_patch := Some ViaSVN\<rparr>)
              else Inl (SystemExit 2 ''Please specify an access method.''))"
      by (simp add: select_transport_def)
    assume b: "\<not> (truthy_str (port parsed) \<and> truthy_str (host parsed)) \<and>
            \<not> truthy_str (svn_repo parsed)"
    with sel have "select_transport parsed = Inl (SystemExit 2 ''Please specify an access method.'')"
      by auto
    with st pa show "TryChange env argv fl swallow w =
                    (Inl (SystemExit 2 ''Please specify an access method.''), w)"
      by (simp add: TryChange_def)
  qed
qed

theorem transport_selection_witness:
  "GetTryServerSettings example_env = Inr (settings_final example_env 0) \<and>
   TryChange example_env [] None False example_world
     = (Inl (SystemExit 2 ''Please specify an access method.''), example_world) \<and>
   GetTryServerSettings
     (example_env\<lparr>GetCodeReviewSetting :=
        (\<lambda>k. if k = ''TRYSERVER_HTTP_HOST'' then Some ''try.example.org''
             else if k = ''TRYSERVER_HTTP_PORT'' then Some ''8018'' else None)\<rparr>)
     = Inr (settings_final
       (example_env\<lparr>GetCodeReviewSetting :=
        (\<lambda>k. if k = ''TRYSERVER_HTTP_HOST'' then Some ''try.example.org''
             else if k = ''TRYSERVER_HTTP_PORT'' then Some ''8018'' else None)\<rparr>) 0) \<and>
   (\<exists>opts. select_transport (TryChange_defaults
       (example_env\<lparr>GetCodeReviewSetting :=
        (\<lambda>k. if k = ''TRYSERVER_HTTP_HOST'' then Some ''try.example.org''
             else if k = ''TRYSERVER_HTTP_PORT'' then Some ''8018'' else None)\<rparr>)
       (settings_final
       (example_env\<lparr>GetCodeReviewSetting :=
        (\<lambda>k. if k = ''TRYSERVER_HTTP_HOST'' then Some ''try.example.org''
             else if k = ''TRYSERVER_HTTP_PORT'' then Some ''8018'' else None)\<rparr>) 0) None)
      = Inr opts \<and> send_patch opts = Some ViaHTTP)"
proof -
  let ?e = "example_env\<lparr>GetCodeReviewSetting :=
        (\<lambda>k. if k = ''TRYSERVER_HTTP_HOST'' then Some ''try.example.org''
             else if k = ''TRYSERVER_HTTP_PORT'' then Some ''8018'' else None)\<rparr>"
  have s0: "GetTryServerSettings example_env = Inr (settings_final example_env 0)"
    by (simp add: GetTryServerSettings_unfold example_env_def)
  have s1: "GetTryServerSettings ?e = Inr (settings_final ?e 0)"
    by (simp add: GetTryServerSettings_unfold)
  have nf: "Opt_use_http \<notin> set []" "Opt_use_svn \<notin> set []" by simp_all
  have p0: "parse_args (TryChange_defaults example_env (settings_final example_env 0) None) []
     = (TryChange_defaults example_env (settings_final example_env 0) None, [])"
    by (simp add: parse_args_def)
  have p1: "parse_args (TryChange_defaults ?e (settings_final ?e 0) None) []
     = (TryChange_defaults ?e (settings_final ?e 0) None, [])"
    by (simp add: parse_args_def)
  have c0: "GetCodeReviewSetting example_env = (\<lambda>k. None)" by (simp add: example_env_def)
  have d0: "\<not> (truthy_str (port (TryChange_defaults example_env (settings_final example_env 0) None)) \<and>
               truthy_str (host (TryChange_defaults example_env (settings_final example_env 0) None)))"
    "\<not> truthy_str (svn_repo (TryChange_defaults example_env (settings_final example_env 0) None))"
    by (simp_all add: TryChange_defaults_def settings_final_get c0)
  from transport_selection [OF s0 nf p0, of False example_world] d0
  have 1: "TryChange example_env [] None False example_world
     = (Inl (SystemExit 2 ''Please specify an access method.''), example_world)"
    by (simp add: c0)
  have r1: "getaddrinfo ?e = (\<lambda>h. None)" by (simp add: example_env_def)
  have d1: "truthy_str (port (TryChange_defaults ?e (settings_final ?e 0) None))"
    "truthy_str (host (TryChange_defaults ?e (settings_final ?e 0) None))"
    by (simp_all add: TryChange_defaults_def settings_final_get)
  from transport_selection [OF s1 nf p1, of False example_world] d1
  have "select_transport (TryChange_defaults ?e (settings_final ?e 0) None)
      = Inr ((TryChange_defaults ?e (settings_final ?e 0) None)\<lparr>send_patch := Some ViaHTTP\<rparr>)"
    by (simp add: r1)
  then have 2: "\<exists>opts. select_transport (TryChange_defaults ?e (settings_final ?e 0) None)
      = Inr opts \<and> send_patch opts = Some ViaHTTP"
    by simp
  from s0 1 s1 2 show ?thesis by blast
qed

text \<open>
  The claim as stated fails: with a host and a port configured, a host name that does not
  resolve and no repository URL, the run does not stop with a configuration error; it
  chooses the direct transport and posts the patch.
\<close>

theorem transport_selection_counterexample:
  "getaddrinfo
     (example_env\<lparr>GetCodeReviewSetting :=
        (\<lambda>k. if k = ''TRYSERVER_HTTP_HOST'' then Some ''try.example.org''
             else if k = ''TRYSERVER_HTTP_PORT'' then Some ''8018'' else None),
        FileRead := (\<lambda>p. Inr ''+x'')\<rparr>) ''try.example.org'' = None \<and>
   GetCodeReviewSetting
     (example_env\<lparr>GetCodeReviewSetting :=
        (\<lambda>k. if k = ''TRYSERVER_HTTP_HOST'' then Some ''try.example.org''
             else if k = ''TRYSERVER_HTTP_PORT'' then Some ''8018'' else None),
        FileRead := (\<lambda>p. Inr ''+x'')\<rparr>) ''TRYSERVER_SVN_URL'' = None \<and>
   fst (TryChange
     (example_env\<lparr>GetCodeReviewSetting :=
        (\<lambda>k. if k = ''TRYSERVER_HTTP_HOST'' then Some ''try.example.org''
             else if k = ''TRYSERVER_HTTP_PORT'' then Some ''8018'' else None),
        FileRead := (\<lambda>p. Inr ''+x'')\<rparr>)
     [Opt_diff ''fix.diff'', Opt_bot ''win''] None False example_world) = Inr 0 \<and>
   trace (snd (TryChange
     (example_env\<lparr>GetCodeReviewSetting :=
        (\<lambda>k. if k = ''TRYSERVER_HTTP_HOST'' then Some ''try.example.org''
             else if k = ''TRYSERVER_HTTP_PORT'' then Some ''8018'' else None),
        FileRead := (\<lambda>p. Inr ''+x'')\<rparr>)
     [Opt_diff ''fix.diff'', Opt_bot ''win''] None False example_world)) ! 5
     = Post ''http://try.example.org:8018/send_try_patch''
         [(''user'', PyStr ''joe''), (''name'', PyStr ''Unnamed''),
          (''bot'', PyStr ''win''), (''patch'', PyStr ''+x'')] None"
  by code_simp

section \<open>Classified errors in TryChange\<close>

lemma GetTryServerSettings_Inl: "GetTryServerSettings env = Inl e \<Longrightarrow> e = ValueError"
  unfolding GetTryServerSettings_unfold by (auto split: option.splits)

lemma select_transport_Inl:
  "select_transport opts = Inl e \<Longrightarrow> e = SystemExit 2 ''Please specify an access method.''"
  by (auto simp add: select_transport_def split: if_splits)

lemma TryChange_except_Inl:
  "fst (TryChange_except swallow r) = Inl e \<Longrightarrow> classified_str e = None"
  by (auto simp add: TryChange_except_def split: prod.splits sum.splits option.splits if_splits)

lemma TryChange_Inl:
  assumes "fst (TryChange env argv fl swallow w) = Inl e"
  shows "classified_str e = None"
proof (cases "GetTryServerSettings env")
  case (Inl e')
  with assms GetTryServerSettings_Inl [OF Inl] show ?thesis by (simp add: TryChange_def)
next
  case (Inr st)
  obtain parsed args where pa: "parse_args (TryChange_defaults env st fl) argv = (parsed, args)"
    by (cases "parse_args (TryChange_defaults env st fl) argv")
  show ?thesis
  proof (cases "select_transport parsed")
    case (Inl e')
    with assms Inr pa select_transport_Inl [OF Inl] show ?thesis by (auto simp add: TryChange_def)
  next
    case sel: (Inr opts)
    show ?thesis
    proof (cases "nothing_to_try opts")
      case True
      with assms Inr pa sel show ?thesis by (auto simp add: TryChange_def Let_def)
    next
      case False
      with assms Inr pa sel show ?thesis
        by (auto simp add: TryChange_def Let_def dest: TryChange_except_Inl)
    qed
  qed
qed


text \<open>
  C9.  The docstring of \<open>TryChange\<close> says that \<open>swallow_exception\<close> decides "whether
  we raise or swallow exceptions", and the claim says that the caller can ask for the
  error to be raised.  The handler never raises.  Outside any working copy and without
  git installed (the probe fails with code 2), \<open>GuessVCS\<close> raises
  \<open>NoTryServerAccess\<close>: with \<open>swallow_exception\<close> false the run prints the message
  and the hint and returns 1 instead of raising, and with \<open>swallow_exception\<close> true it
  returns 1 and prints nothing.
\<close>

theorem TryChange_classified_error_not_raised:
  "TryChange
     (example_env\<lparr>GetCodeReviewSetting :=
        (\<lambda>k. if k = ''TRYSERVER_SVN_URL'' then Some ''svn://svn.example.org/try'' else None),
        CheckCall_outcome := (\<lambda>c. Inl (2, []))\<rparr>)
     [] None False example_world
     = (Inr 1, example_world\<lparr>trace :=
          [Run [''git'', ''rev-parse'', ''--is-inside-work-tree''],
           Print (''Could not guess version control system. '' @
                  ''Are you in a working copy directory?'' @ NL @ HELP_STRING)]\<rparr>) \<and>
   TryChange
     (example_env\<lparr>GetCodeReviewSetting :=
        (\<lambda>k. if k = ''TRYSERVER_SVN_URL'' then Some ''svn://svn.example.org/try'' else None),
        CheckCall_outcome := (\<lambda>c. Inl (2, []))\<rparr>)
     [] None True example_world
     = (Inr 1, example_world\<lparr>trace :=
          [Run [''git'', ''rev-parse'', ''--is-inside-work-tree'']]\<rparr>)"
  by (simp add: TryChange_def GetTryServerSettings_unfold parse_args_def select_transport_def
      TryChange_defaults_def settings_final_get nothing_to_try_def TryChange_try_def
      load_diff_def guess_scm_def GuessVCS_def bindM_def catchM_def liftW_def CheckCall_def
      raiseM_def returnM_def modify_opts_def emit_def example_env_def example_world_def
      TryChange_except_def path_join_def startswith_def git_probe_def Let_def)

section \<open>Mediated delivery\<close>

lemma CheckCall_cases:
  "CheckCall env c w =
     (case CheckCall_outcome env c of
        Inl (rc, out) \<Rightarrow> Inl (CheckCallError c rc out)
      | Inr out \<Rightarrow> Inr out,
      w\<lparr>trace := trace w @ [Run c], fs := fs w ++ map_of (CheckCall_writes env c)\<rparr>)"
  by (simp add: CheckCall_def Let_def emit_def split: sum.splits prod.splits)

lemma svn_file_found_eq:
  "svn_file_found env u w =
     (Inr (case CheckCall_outcome env [''svn'', ''ls'', u] of Inl x \<Rightarrow> False | Inr y \<Rightarrow> True),
      w\<lparr>trace := trace w @ [Run [''svn'', ''ls'', u]],
        fs := fs w ++ map_of (CheckCall_writes env [''svn'', ''ls'', u])\<rparr>)"
  by (simp add: svn_file_found_def catchM_def bindM_def CheckCall_cases returnM_def raiseM_def
      split: sum.splits prod.splits)

lemma svn_put_ok:
  assumes "fst (svn_put env opts fp found w) = Inr ()"
  shows "\<exists>d. diff opts = Some d \<and>
     trace (snd (svn_put env opts fp found w)) =
       trace w @ (if found then [Run [''svn'', ''update'', fp], Write fp d]
                  else [Write fp d, Run [''svn'', ''add'', fp]])"
  using assms
  by (auto simp add: svn_put_def bindM_def CheckCall_cases write_file_def returnM_def emit_def
      split: sum.splits prod.splits if_splits option.splits)

lemma svn_put_found_no_add:
  "Run [''svn'', ''add'', p] \<in> set (trace (snd (svn_put env opts fp True w)))
     \<Longrightarrow> Run [''svn'', ''add'', p] \<in> set (trace w)"
  by (auto simp add: svn_put_def bindM_def CheckCall_cases write_file_def returnM_def emit_def
      split: sum.splits prod.splits if_splits option.splits)

lemma svn_put_found_update:
  "take (Suc (length (trace w))) (trace (snd (svn_put env opts fp True w)))
     = trace w @ [Run [''svn'', ''update'', fp]]"
  by (auto simp add: svn_put_def bindM_def CheckCall_cases write_file_def returnM_def emit_def
      split: sum.splits prod.splits if_splits option.splits)



lemma svn_body_name_Some:
  assumes "name opts = Some n"
  shows "svn_body env opts td tf desc w =
     (case CheckCall_outcome env (svn_checkout_command opts td) of
        Inl (rc, out) \<Rightarrow>
          (Inl (CheckCallError (svn_checkout_command opts td) rc out),
           w\<lparr>trace := trace w @ [Run (svn_checkout_command opts td)],
             fs := fs w ++ map_of (CheckCall_writes env (svn_checkout_command opts td))\<rparr>)
      | Inr out \<Rightarrow>
          svn_rest env opts (path_join td (svn_file_name (user opts) n (now env))) tf desc
            (case CheckCall_outcome env
               [''svn'', ''ls'', fmt (svn_repo opts) @ ''/'' @ svn_file_name (user opts) n (now env)]
             of Inl x \<Rightarrow> False | Inr y \<Rightarrow> True)
            (w\<lparr>trace := trace w @ [Run (svn_checkout_command opts td),
                 Run [''svn'', ''ls'',
                      fmt (svn_repo opts) @ ''/'' @ svn_file_name (user opts) n (now env)]],
               fs := fs w ++ map_of (CheckCall_writes env (svn_checkout_command opts td))
                     ++ map_of (CheckCall_writes env [''svn'', ''ls'',
                      fmt (svn_repo opts) @ ''/'' @ svn_file_name (user opts) n (now env)])\<rparr>))"
  using assms
  by (simp add: svn_body_def svn_rest_def Let_def bindM_def CheckCall_cases svn_file_found_eq
      split: sum.splits prod.splits)

lemma svn_rest_ok:
  assumes "fst (svn_rest env opts fp tf desc found w) = Inr ()"
  shows "\<exists>d. diff opts = Some d \<and>
     trace (snd (svn_rest env opts fp tf desc found w)) =
       trace w @ (if found then [Run [''svn'', ''update'', fp], Write fp d]
                  else [Write fp d, Run [''svn'', ''add'', fp]]) @
       [Write tf desc, Run [''svn'', ''commit'', fp, ''--file'', tf]]"
proof -
  obtain r1 w1 where p: "svn_put env opts fp found w = (r1, w1)"
    by (cases "svn_put env opts fp found w")
  with assms have r1: "r1 = Inr ()"
    by (cases r1) (simp_all add: svn_rest_def bindM_def)
  with p svn_put_ok [of env opts fp found w] obtain d where d: "diff opts = Some d"
    and t1: "trace w1 = trace w @ (if found then [Run [''svn'', ''update'', fp], Write fp d]
                  else [Write fp d, Run [''svn'', ''add'', fp]])"
    by auto
  from p r1 have "trace (snd (svn_rest env opts fp tf desc found w)) =
      trace w1 @ [Write tf desc, Run [''svn'', ''commit'', fp, ''--file'', tf]]"
    by (simp add: svn_rest_def bindM_def svn_write_message_def emit_def CheckCall_cases
        returnM_def split: sum.splits prod.splits)
  with d t1 show ?thesis by simp
qed

lemma svn_rest_found_no_add:
  "Run [''svn'', ''add'', p] \<in> set (trace (snd (svn_rest env opts fp tf desc True w)))
     \<Longrightarrow> Run [''svn'', ''add'', p] \<in> set (trace w)"
proof -
  assume a: "Run [''svn'', ''add'', p] \<in> set (trace (snd (svn_rest env opts fp tf desc True w)))"
  obtain r1 w1 where q: "svn_put env opts fp True w = (r1, w1)"
    by (cases "svn_put env opts fp True w")
  have "Run [''svn'', ''add'', p] \<in> set (trace w1)"
    using a q
    by (cases r1) (auto simp add: svn_rest_def bindM_def svn_write_message_def emit_def
        CheckCall_cases returnM_def split: sum.splits prod.splits)
  with svn_put_found_no_add [of p env opts fp w] q show ?thesis by simp
qed

lemma svn_rest_found_update:
  "take (Suc (length (trace w))) (trace (snd (svn_rest env opts fp tf desc True w)))
     = trace w @ [Run [''svn'', ''update'', fp]]"
proof -
  obtain r1 w1 where q: "svn_put env opts fp True w = (r1, w1)"
    by (cases "svn_put env opts fp True w")
  with svn_put_found_update [of w env opts fp]
  have t: "take (Suc (length (trace w))) (trace w1) = trace w @ [Run [''svn'', ''update'', fp]]"
    by simp
  then have len: "Suc (length (trace w)) \<le> length (trace w1)"
    by (metis length_append_singleton length_take min.cobounded1 min_def le_refl)
  have "\<exists>evs. trace (snd (svn_rest env opts fp tf desc True w)) = trace w1 @ evs"
    using q
    by (cases r1) (auto simp add: svn_rest_def bindM_def svn_write_message_def emit_def
        CheckCall_cases returnM_def split: sum.splits prod.splits)
  then obtain evs where "trace (snd (svn_rest env opts fp tf desc True w)) = trace w1 @ evs" ..
  with t len show ?thesis by simp
qed



lemma SendChangeSVN_eq:
  assumes "truthy_str (svn_repo opts)"
    and "mkdtemp env = Inr td" and "NamedTemporaryFile env = Inr tf"
  shows "SendChangeSVN env opts w =
     (case fst (svn_body env opts td tf
                  (svn_description env (ParseSendChangeOptions opts))
                  (w\<lparr>fs := ((fs w)(td \<mapsto> Dir))(tf \<mapsto> File [])\<rparr>)) of
        Inl e \<Rightarrow> Inl (svn_wrapped e) | Inr x \<Rightarrow> Inr x,
      svn_cleanup env td tf
        (snd (svn_body env opts td tf
                  (svn_description env (ParseSendChangeOptions opts))
                  (w\<lparr>fs := ((fs w)(td \<mapsto> Dir))(tf \<mapsto> File [])\<rparr>))))"
  using assms
  by (simp add: SendChangeSVN_def Let_def finallyM_def catchM_def svn_wrap_def raiseM_def
      split: prod.splits sum.splits)


lemma EscapeDot_no_dot: "CHR ''.'' \<notin> set (EscapeDot s)"
  by (auto simp add: EscapeDot_def replace_char_def)

lemma svn_cleanup_trace: "trace (svn_cleanup env td tf w) = trace w"
  by (simp add: svn_cleanup_def)



lemma succeeds_Inr: "succeeds env c \<Longrightarrow> \<exists>out. CheckCall_outcome env c = Inr out"
  by (cases "CheckCall_outcome env c") (simp_all add: succeeds_def)

lemma svn_put_success:
  assumes "diff opts = Some d" and "open_wb env fp"
    and "if found then succeeds env [''svn'', ''update'', fp]
         else succeeds env [''svn'', ''add'', fp]"
  shows "fst (svn_put env opts fp found w) = Inr () \<and>
     trace (snd (svn_put env opts fp found w)) =
       trace w @ (if found then [Run [''svn'', ''update'', fp], Write fp d]
                  else [Write fp d, Run [''svn'', ''add'', fp]])"
proof (cases found)
  case True
  with assms(3) obtain out where "CheckCall_outcome env [''svn'', ''update'', fp] = Inr out"
    using succeeds_Inr by auto
  with True assms(1,2) show ?thesis
    by (simp add: svn_put_def bindM_def CheckCall_cases write_file_def emit_def)
next
  case False
  with assms(3) obtain out where "CheckCall_outcome env [''svn'', ''add'', fp] = Inr out"
    using succeeds_Inr by auto
  with False assms(1,2) show ?thesis
    by (simp add: svn_put_def bindM_def CheckCall_cases write_file_def emit_def returnM_def)
qed

lemma svn_rest_success:
  assumes "diff opts = Some d" and "open_wb env fp"
    and "if found then succeeds env [''svn'', ''update'', fp]
         else succeeds env [''svn'', ''add'', fp]"
    and "succeeds env [''svn'', ''commit'', fp, ''--file'', tf]"
  shows "fst (svn_rest env opts fp tf desc found w) = Inr () \<and>
     trace (snd (svn_rest env opts fp tf desc found w)) =
       trace w @ (if found then [Run [''svn'', ''update'', fp], Write fp d]
                  else [Write fp d, Run [''svn'', ''add'', fp]]) @
       [Write tf desc, Run [''svn'', ''commit'', fp, ''--file'', tf]]"
proof -
  obtain r1 w1 where q: "svn_put env opts fp found w = (r1, w1)"
    by (cases "svn_put env opts fp found w")
  with svn_put_success [OF assms(1,2,3), of w] have r1: "r1 = Inr ()"
    and t1: "trace w1 = trace w @ (if found then [Run [''svn'', ''update'', fp], Write fp d]
                  else [Write fp d, Run [''svn'', ''add'', fp]])"
    by simp_all
  from succeeds_Inr [OF assms(4)] obtain out where
    c: "CheckCall_outcome env [''svn'', ''commit'', fp, ''--file'', tf] = Inr out" ..
  from q r1 c have "fst (svn_rest env opts fp tf desc found w) = Inr ()"
    and "trace (snd (svn_rest env opts fp tf desc found w)) =
      trace w1 @ [Write tf desc, Run [''svn'', ''commit'', fp, ''--file'', tf]]"
    by (simp_all add: svn_rest_def bindM_def svn_write_message_def emit_def CheckCall_cases
        returnM_def)
  with t1 show ?thesis by simp
qed

lemma SendChangeSVN_success:
  assumes repo: "truthy_str (svn_repo opts)"
    and nm: "name opts = Some n" and df: "diff opts = Some d"
    and td: "mkdtemp env = Inr td" and tf: "NamedTemporaryFile env = Inr tf"
    and co: "succeeds env (svn_checkout_command opts td)"
    and op: "open_wb env (path_join td (svn_file_name (user opts) n (now env)))"
    and put: "if succeeds env [''svn'', ''ls'',
                fmt (svn_repo opts) @ ''/'' @ svn_file_name (user opts) n (now env)]
         then succeeds env [''svn'', ''update'',
                path_join td (svn_file_name (user opts) n (now env))]
         else succeeds env [''svn'', ''add'',
                path_join td (svn_file_name (user opts) n (now env))]"
    and cm: "succeeds env [''svn'', ''commit'',
                path_join td (svn_file_name (user opts) n (now env)), ''--file'', tf]"
  shows "fst (SendChangeSVN env opts w) = Inr () \<and>
     trace (snd (SendChangeSVN env opts w)) =
       trace w @
       [Run (svn_checkout_command opts td),
        Run [''svn'', ''ls'', fmt (svn_repo opts) @ ''/'' @ svn_file_name (user opts) n (now env)]] @
       (if succeeds env [''svn'', ''ls'',
               fmt (svn_repo opts) @ ''/'' @ svn_file_name (user opts) n (now env)]
        then [Run [''svn'', ''update'', path_join td (svn_file_name (user opts) n (now env))],
              Write (path_join td (svn_file_name (user opts) n (now env))) d]
        else [Write (path_join td (svn_file_name (user opts) n (now env))) d,
              Run [''svn'', ''add'', path_join td (svn_file_name (user opts) n (now env))]]) @
       [Write tf (svn_description env (ParseSendChangeOptions opts)),
        Run [''svn'', ''commit'', path_join td (svn_file_name (user opts) n (now env)),
             ''--file'', tf]]"
proof -
  let ?desc = "svn_description env (ParseSendChangeOptions opts)"
  let ?w2 = "w\<lparr>fs := ((fs w)(td \<mapsto> Dir))(tf \<mapsto> File [])\<rparr>"
  let ?B = "svn_body env opts td tf ?desc ?w2"
  let ?fn = "svn_file_name (user opts) n (now env)"
  let ?fp = "path_join td ?fn"
  let ?co = "svn_checkout_command opts td"
  let ?ls = "[''svn'', ''ls'', fmt (svn_repo opts) @ ''/'' @ ?fn]"
  let ?w3 = "?w2\<lparr>trace := trace ?w2 @ [Run ?co, Run ?ls],
               fs := fs ?w2 ++ map_of (CheckCall_writes env ?co)
                     ++ map_of (CheckCall_writes env ?ls)\<rparr>"
  from succeeds_Inr [OF co] obtain out where c: "CheckCall_outcome env ?co = Inr out" ..
  have found: "(case CheckCall_outcome env ?ls of Inl x \<Rightarrow> False | Inr y \<Rightarrow> True) = succeeds env ?ls"
    by (simp add: succeeds_def)
  have B: "?B = svn_rest env opts ?fp tf ?desc (succeeds env ?ls) ?w3"
    by (simp only: svn_body_name_Some [OF nm] c found sum.case)
  note r = svn_rest_success [OF df op put cm, of ?desc ?w3]
  have e: "SendChangeSVN env opts w =
     (case fst ?B of Inl e \<Rightarrow> Inl (svn_wrapped e) | Inr x \<Rightarrow> Inr x, svn_cleanup env td tf (snd ?B))"
    by (rule SendChangeSVN_eq [OF repo td tf])
  from r have 1: "fst (SendChangeSVN env opts w) = Inr ()"
    by (simp only: e B) simp
  from r have 2: "trace (snd (SendChangeSVN env opts w)) = trace ?w3 @
       (if succeeds env ?ls then [Run [''svn'', ''update'', ?fp], Write ?fp d]
        else [Write ?fp d, Run [''svn'', ''add'', ?fp]]) @
       [Write tf ?desc, Run [''svn'', ''commit'', ?fp, ''--file'', tf]]"
    by (simp only: e B snd_conv svn_cleanup_trace)
  from 1 2 show ?thesis by simp
qed



lemma digit_val_digit_char: "d < 10 \<Longrightarrow> digit_val (digit_char d) = d"
  by (simp add: digit_val_def digit_char_def)

lemma decimal_val_snoc: "decimal_val (xs @ [c]) = 10 * decimal_val xs + digit_val c"
  by (simp add: decimal_val_def)

lemma decimal_val_str_nat: "decimal_val (str_nat n) = n"
proof (induction n rule: str_nat.induct)
  case (1 n)
  show ?case
  proof (cases "n < 10")
    case True
    then show ?thesis
      by (simp add: str_nat.simps [of n] decimal_val_def digit_val_digit_char)
  next
    case False
    with "1.IH" have "decimal_val (str_nat (n div 10)) = n div 10" by simp
    with False show ?thesis
      by (simp add: str_nat.simps [of n] decimal_val_snoc digit_val_digit_char)
  qed
qed

lemma digit_val_zero: "digit_val (CHR ''0'') = 0"
  by (simp add: digit_val_def)

lemma decimal_val_zeros: "decimal_val (replicate k (CHR ''0'') @ s) = decimal_val s"
  by (induction k) (simp_all add: decimal_val_def digit_val_zero)

lemma decimal_val_zpad: "decimal_val (zpad k n) = n"
  by (simp add: zpad_def decimal_val_zeros decimal_val_str_nat)

lemma zpad_inj: "zpad k n = zpad k m \<Longrightarrow> n = m"
  by (metis decimal_val_zpad)

lemma digit_char_not_colon: "d < 10 \<Longrightarrow> digit_char d \<noteq> CHR '':''"
proof
  assume d: "d < 10" and e: "digit_char d = CHR '':''"
  from e have "digit_val (digit_char d) = digit_val (CHR '':'')" by simp
  with digit_val_digit_char [OF d] have "d = digit_val (CHR '':'')" by simp
  then have "d = 10" by (simp add: digit_val_def)
  with d show False by simp
qed

lemma str_nat_no_colon: "CHR '':'' \<notin> set (str_nat n)"
proof (induction n rule: str_nat.induct)
  case (1 n)
  show ?case
  proof (cases "n < 10")
    case True
    then show ?thesis
      using digit_char_not_colon [of n] by (auto simp add: str_nat.simps [of n])
  next
    case False
    with "1.IH" have "CHR '':'' \<notin> set (str_nat (n div 10))" by simp
    moreover have "digit_char (n mod 10) \<noteq> CHR '':''" by (rule digit_char_not_colon) simp
    ultimately show ?thesis using False by (auto simp add: str_nat.simps [of n])
  qed
qed

lemma zpad_no_colon: "CHR '':'' \<notin> set (zpad k n)"
  using str_nat_no_colon [of n] by (auto simp add: zpad_def)

lemma replace_zpad: "replace_char (CHR '':'') (CHR ''.'') (zpad k n) = zpad k n"
  unfolding replace_char_def using zpad_no_colon [of k n]
  by (intro map_idI) auto

lemma svn_file_name_microsecond:
  assumes "m \<noteq> m'"
  shows "svn_file_name u n (t\<lparr>microsecond := m\<rparr>) \<noteq> svn_file_name u n (t\<lparr>microsecond := m'\<rparr>)"
proof
  assume "svn_file_name u n (t\<lparr>microsecond := m\<rparr>) = svn_file_name u n (t\<lparr>microsecond := m'\<rparr>)"
  then have eq: "(if m = 0 then [] else CHR ''.'' # zpad 6 m) =
                 (if m' = 0 then [] else CHR ''.'' # zpad 6 m')"
    by (simp add: svn_file_name_def str_datetime_def replace_char_def
        replace_zpad [unfolded replace_char_def] split: if_splits)
  with assms show False by (auto split: if_splits dest: zpad_inj)
qed

lemma checkout_not_add: "[''svn'', ''add'', p] \<noteq> svn_checkout_command opts td"
  by (simp add: svn_checkout_command_def)

text \<open>
  C5 (amended).  If the existence check \<open>svn ls\<close> for the computed file name succeeds,
  mediated delivery never issues \<open>svn add\<close>; and when its other steps succeed, it
  succeeds and does exactly this: checkout, existence check, \<open>svn update\<close> of that
  file, overwrite of the file with the diff, write of the message, commit of the file in
  place.  The file name carries the timestamp with its microseconds: two timestamps that
  differ in the microseconds, even within the same second, give different names for the
  same user and job name.
\<close>

theorem SendChangeSVN_update_in_place:
  assumes repo: "truthy_str (svn_repo opts)"
    and nm: "name opts = Some n"
    and td: "mkdtemp env = Inr td" and tf: "NamedTemporaryFile env = Inr tf"
    and found: "succeeds env
       [''svn'', ''ls'', fmt (svn_repo opts) @ ''/'' @ svn_file_name (user opts) n (now env)]"
  shows
   "(\<forall>p. Run [''svn'', ''add'', p] \<in> set (trace (snd (SendChangeSVN env opts w)))
         \<longrightarrow> Run [''svn'', ''add'', p] \<in> set (trace w)) \<and>
    (\<forall>d. diff opts = Some d \<and>
          succeeds env (svn_checkout_command opts td) \<and>
          succeeds env [''svn'', ''update'', path_join td (svn_file_name (user opts) n (now env))] \<and>
          open_wb env (path_join td (svn_file_name (user opts) n (now env))) \<and>
          succeeds env [''svn'', ''commit'',
                path_join td (svn_file_name (user opts) n (now env)), ''--file'', tf]
       \<longrightarrow> fst (SendChangeSVN env opts w) = Inr () \<and>
           trace (snd (SendChangeSVN env opts w)) =
             trace w @
             [Run (svn_checkout_command opts td),
              Run [''svn'', ''ls'',
                   fmt (svn_repo opts) @ ''/'' @ svn_file_name (user opts) n (now env)],
              Run [''svn'', ''update'', path_join td (svn_file_name (user opts) n (now env))],
              Write (path_join td (svn_file_name (user opts) n (now env))) d,
              Write tf (svn_description env (ParseSendChangeOptions opts)),
              Run [''svn'', ''commit'', path_join td (svn_file_name (user opts) n (now env)),
                   ''--file'', tf]]) \<and>
    (\<forall>t m m'. m \<noteq> m' \<longrightarrow>
       svn_file_name (user opts) n (t\<lparr>microsecond := m\<rparr>)
         \<noteq> svn_file_name (user opts) n (t\<lparr>microsecond := m'\<rparr>))"
proof -
  let ?desc = "svn_description env (ParseSendChangeOptions opts)"
  let ?w2 = "w\<lparr>fs := ((fs w)(td \<mapsto> Dir))(tf \<mapsto> File [])\<rparr>"
  let ?B = "svn_body env opts td tf ?desc ?w2"
  let ?fn = "svn_file_name (user opts) n (now env)"
  let ?fp = "path_join td ?fn"
  let ?co = "svn_checkout_command opts td"
  let ?ls = "[''svn'', ''ls'', fmt (svn_repo opts) @ ''/'' @ ?fn]"
  let ?w3 = "?w2\<lparr>trace := trace ?w2 @ [Run ?co, Run ?ls],
               fs := fs ?w2 ++ map_of (CheckCall_writes env ?co)
                     ++ map_of (CheckCall_writes env ?ls)\<rparr>"
  from succeeds_Inr [OF found] obtain out where f: "CheckCall_outcome env ?ls = Inr out" ..
  have tr: "trace (snd (SendChangeSVN env opts w)) = trace (snd ?B)"
    by (simp add: SendChangeSVN_eq [OF repo td tf] svn_cleanup_trace)
  have co_ok: "?B = svn_rest env opts ?fp tf ?desc True ?w3"
    if "CheckCall_outcome env ?co = Inr out'" for out'
    using that f by (simp add: svn_body_name_Some [OF nm])
  have co_fail: "trace (snd ?B) = trace w @ [Run ?co]"
    if "CheckCall_outcome env ?co = Inl x" for x
    using that by (cases x) (simp add: svn_body_name_Some [OF nm])
  show ?thesis
  proof (intro conjI allI impI)
    fix p
    assume a: "Run [''svn'', ''add'', p] \<in> set (trace (snd (SendChangeSVN env opts w)))"
    show "Run [''svn'', ''add'', p] \<in> set (trace w)"
    proof (cases "CheckCall_outcome env ?co")
      case (Inl x)
      from a co_fail [OF Inl] tr have "Run [''svn'', ''add'', p] \<in> set (trace w @ [Run ?co])"
        by simp
      with checkout_not_add [of p opts td] show ?thesis by simp
    next
      case (Inr out')
      from a tr co_ok [OF Inr]
      have "Run [''svn'', ''add'', p] \<in> set (trace (snd (svn_rest env opts ?fp tf ?desc True ?w3)))"
        by simp
      from svn_rest_found_no_add [OF this] checkout_not_add [of p opts td] show ?thesis by simp
    qed
  next
    fix d
    assume h: "diff opts = Some d \<and> succeeds env ?co \<and>
          succeeds env [''svn'', ''update'', ?fp] \<and> open_wb env ?fp \<and>
          succeeds env [''svn'', ''commit'', ?fp, ''--file'', tf]"
    from h found have put: "if succeeds env ?ls then succeeds env [''svn'', ''update'', ?fp]
         else succeeds env [''svn'', ''add'', ?fp]"
      by simp
    from h have df: "diff opts = Some d" and co: "succeeds env ?co" and op: "open_wb env ?fp"
      and cm: "succeeds env [''svn'', ''commit'', ?fp, ''--file'', tf]"
      by simp_all
    note s = SendChangeSVN_success [OF repo nm df td tf co op put cm, of w]
    from s show "fst (SendChangeSVN env opts w) = Inr ()" by (rule conjunct1)
    from s found show "trace (snd (SendChangeSVN env opts w)) =
             trace w @ [Run ?co, Run ?ls, Run [''svn'', ''update'', ?fp], Write ?fp d,
              Write tf ?desc, Run [''svn'', ''commit'', ?fp, ''--file'', tf]]"
      by simp
  next
    fix t :: datetime and m m' :: nat
    assume "m \<noteq> m'"
    then show "svn_file_name (user opts) n (t\<lparr>microsecond := m\<rparr>)
         \<noteq> svn_file_name (user opts) n (t\<lparr>microsecond := m'\<rparr>)"
      by (rule svn_file_name_microsecond)
  qed
qed

theorem SendChangeSVN_update_in_place_witness:
  "fst (SendChangeSVN example_env example_options example_world) = Inr () \<and>
   trace (snd (SendChangeSVN example_env example_options example_world))
     = [Run [''svn'', ''checkout'', ''--depth'', ''empty'', ''-q'',
             ''svn://svn.example.org/try'', ''/tmp/tmpd''],
        Run [''svn'', ''ls'', ''svn://svn.example.org/try/joe.fix.2009-10-01 12.34.56.diff''],
        Run [''svn'', ''update'', ''/tmp/tmpd/joe.fix.2009-10-01 12.34.56.diff''],
        Write ''/tmp/tmpd/joe.fix.2009-10-01 12.34.56.diff'' ''+x'',
        Write ''/tmp/tmpf'' (''user=joe'' @ NL @ ''name=fix'' @ NL),
        Run [''svn'', ''commit'', ''/tmp/tmpd/joe.fix.2009-10-01 12.34.56.diff'',
             ''--file'', ''/tmp/tmpf'']] \<and>
   svn_file_name (user example_options) ''fix'' ((now example_env)\<lparr>microsecond := 250000\<rparr>)
     \<noteq> svn_file_name (user example_options) ''fix'' ((now example_env)\<lparr>microsecond := 750000\<rparr>)"
proof -
  have fn: "svn_file_name ''joe'' ''fix'' (now example_env) = ''joe.fix.2009-10-01 12.34.56.diff''"
    by code_simp
  have u: "user example_options = ''joe''" by (simp add: example_options_def)
  have repo: "truthy_str (svn_repo example_options)"
    and r: "svn_repo example_options = Some ''svn://svn.example.org/try''"
    and e: "email example_options = None"
    and nm: "name example_options = Some ''fix''"
    and df: "diff example_options = Some ''+x''"
    by (simp_all add: example_options_def)
  have td: "mkdtemp example_env = Inr ''/tmp/tmpd''"
    and tf: "NamedTemporaryFile example_env = Inr ''/tmp/tmpf''"
    by (simp_all add: example_env_def)
  have all: "succeeds example_env c" for c by (simp add: succeeds_def example_env_def)
  have op: "open_wb example_env p" for p by (simp add: example_env_def)
  have pv: "ParseSendChangeOptions example_options = [(''user'', PyStr ''joe''), (''name'', PyStr ''fix'')]"
    by code_simp
  have di: "dict_items example_env = (\<lambda>d. d)" by (simp add: example_env_def)
  have pj: "path_join ''/tmp/tmpd'' ''joe.fix.2009-10-01 12.34.56.diff''
      = ''/tmp/tmpd/joe.fix.2009-10-01 12.34.56.diff''"
    by code_simp
  have cc: "svn_checkout_command example_options ''/tmp/tmpd'' =
      [''svn'', ''checkout'', ''--depth'', ''empty'', ''-q'', ''svn://svn.example.org/try'', ''/tmp/tmpd'']"
    by (simp add: svn_checkout_command_def r e fmt_def)
  note t = SendChangeSVN_update_in_place [OF repo nm td tf all, of example_world]
  from t [THEN conjunct2, THEN conjunct1, rule_format, of "''+x''"] df all op
  have s: "fst (SendChangeSVN example_env example_options example_world) = Inr () \<and>
     trace (snd (SendChangeSVN example_env example_options example_world))
     = [Run [''svn'', ''checkout'', ''--depth'', ''empty'', ''-q'',
             ''svn://svn.example.org/try'', ''/tmp/tmpd''],
        Run [''svn'', ''ls'', ''svn://svn.example.org/try/joe.fix.2009-10-01 12.34.56.diff''],
        Run [''svn'', ''update'', ''/tmp/tmpd/joe.fix.2009-10-01 12.34.56.diff''],
        Write ''/tmp/tmpd/joe.fix.2009-10-01 12.34.56.diff'' ''+x'',
        Write ''/tmp/tmpf'' (''user=joe'' @ NL @ ''name=fix'' @ NL),
        Run [''svn'', ''commit'', ''/tmp/tmpd/joe.fix.2009-10-01 12.34.56.diff'',
             ''--file'', ''/tmp/tmpf'']]"
    by (simp add: u fn pv di pj cc r fmt_def example_world_def svn_description_def)
  from t [THEN conjunct2, THEN conjunct2, rule_format, of 250000 750000 "now example_env"]
  have d: "svn_file_name (user example_options) ''fix'' ((now example_env)\<lparr>microsecond := 250000\<rparr>)
     \<noteq> svn_file_name (user example_options) ''fix'' ((now example_env)\<lparr>microsecond := 750000\<rparr>)"
    by simp
  from s d show ?thesis by simp
qed

text \<open>
  The claim as stated fails for timestamps that agree to the second only.  The store
  holds the file of a first call at 12:34:56.250000, so \<open>svn ls\<close> succeeds for that
  name and for no other.  A second call in the same second, at 12:34:56.750000, with the
  same user, job name and diff, computes another name, does not find it, and adds a new
  file.
\<close>

theorem SendChangeSVN_update_in_place_counterexample:
  "(now example_env)\<lparr>microsecond := 750000\<rparr>\<lparr>microsecond := 0\<rparr>
     = (now example_env)\<lparr>microsecond := 250000\<rparr>\<lparr>microsecond := 0\<rparr> \<and>
   svn_file_name ''joe'' ''fix'' ((now example_env)\<lparr>microsecond := 250000\<rparr>)
     = ''joe.fix.2009-10-01 12.34.56.250000.diff'' \<and>
   svn_file_name ''joe'' ''fix'' ((now example_env)\<lparr>microsecond := 750000\<rparr>)
     = ''joe.fix.2009-10-01 12.34.56.750000.diff'' \<and>
   trace (snd (SendChangeSVN
     (example_env\<lparr>now := (now example_env)\<lparr>microsecond := 750000\<rparr>,
        CheckCall_outcome := (\<lambda>c.
           if c = [''svn'', ''ls'', ''svn://svn.example.org/try/'' @
              svn_file_name ''joe'' ''fix'' ((now example_env)\<lparr>microsecond := 250000\<rparr>)]
           then Inr []
           else if take 2 c = [''svn'', ''ls''] then Inl (1, []) else Inr [])\<rparr>)
     example_options example_world)) ! 3
     = Run [''svn'', ''add'', ''/tmp/tmpd/joe.fix.2009-10-01 12.34.56.750000.diff'']"
  by code_simp












end
